theory Spec2Isabelle
  imports Complex_Main "HOL-Library.AList" "HOL-Library.Multiset"
begin

section \<open>Python values\<close>

text \<open>
  The service passes JSON-shaped Python values around: the envelopes it receives from
  the provider, the ones it synthesises, and the samples of the fallback file. A Python
  dict is an association list in insertion order; floats are idealised as reals (no
  rounding, no NaN, no infinity); Python integers are unbounded.
\<close>

datatype json =
    JNull
  | JBool bool
  | JInt int
  | JReal real
  | JStr string
  | JList "json list"
  | JDict "(string \<times> json) list"

text \<open>The exceptions the modelled code can raise; all of them derive from \<open>Exception\<close>.\<close>

datatype py_error =
    TypeError
  | KeyError
  | IndexError
  | AttributeError
  | ValueError
  | OverflowError
  | RequestException
  | JSONDecodeError
  | OperationalError
  | IntegrityError
  | InterfaceError

text \<open>Sequencing of a computation that may raise.\<close>

definition bind_err :: "'e + 'a \<Rightarrow> ('a \<Rightarrow> 'e + 'b) \<Rightarrow> 'e + 'b" where
  "bind_err m f = (case m of Inl e \<Rightarrow> Inl e | Inr x \<Rightarrow> f x)"

text \<open>\<^verbatim>\<open>x["k"]\<close>: only a dict can be subscripted by a string.\<close>

fun getitem_key :: "json \<Rightarrow> string \<Rightarrow> py_error + json" where
  "getitem_key (JDict kvs) k = (case map_of kvs k of None \<Rightarrow> Inl KeyError | Some v \<Rightarrow> Inr v)"
| "getitem_key _ k = Inl TypeError"

text \<open>
  \<^verbatim>\<open>x[0]\<close> and \<^verbatim>\<open>x[1]\<close>: a list or a string is indexed (IndexError when too short), a
  JSON dict has string keys only (KeyError), anything else is not subscriptable.
\<close>

fun getitem_idx :: "json \<Rightarrow> nat \<Rightarrow> py_error + json" where
  "getitem_idx (JList xs) i = (if i < length xs then Inr (xs ! i) else Inl IndexError)"
| "getitem_idx (JStr s) i = (if i < length s then Inr (JStr [s ! i]) else Inl IndexError)"
| "getitem_idx (JDict kvs) i = Inl KeyError"
| "getitem_idx _ i = Inl TypeError"

text \<open>\<^verbatim>\<open>x.get(k, d)\<close>: a method of dicts only.\<close>

fun dict_get :: "json \<Rightarrow> string \<Rightarrow> json \<Rightarrow> py_error + json" where
  "dict_get (JDict kvs) k d = Inr (case map_of kvs k of None \<Rightarrow> d | Some v \<Rightarrow> v)"
| "dict_get _ k d = Inl AttributeError"

text \<open>\<^verbatim>\<open>x["k"] = v\<close>: replaces the value in place or appends the key.\<close>

fun setitem :: "json \<Rightarrow> string \<Rightarrow> json \<Rightarrow> py_error + json" where
  "setitem (JDict kvs) k v = Inr (JDict (AList.update k v kvs))"
| "setitem _ k v = Inl TypeError"

text \<open>\<^verbatim>\<open>for item in x\<close>: a list yields its items, a dict its keys, a string its characters.\<close>

fun py_iter :: "json \<Rightarrow> py_error + json list" where
  "py_iter (JList xs) = Inr xs"
| "py_iter (JDict kvs) = Inr (map (\<lambda>kv. JStr (fst kv)) kvs)"
| "py_iter (JStr s) = Inr (map (\<lambda>c. JStr [c]) s)"
| "py_iter _ = Inl TypeError"

text \<open>The value of an operand in arithmetic with a float; \<^verbatim>\<open>True\<close> counts as 1.\<close>

fun to_float :: "json \<Rightarrow> py_error + real" where
  "to_float (JInt i) = Inr (real_of_int i)"
| "to_float (JReal r) = Inr r"
| "to_float (JBool b) = Inr (if b then 1 else 0)"
| "to_float _ = Inl TypeError"

text \<open>Truth value of an object in a condition.\<close>

fun truthy :: "json \<Rightarrow> bool" where
  "truthy JNull = False"
| "truthy (JBool b) = b"
| "truthy (JInt i) = (i \<noteq> 0)"
| "truthy (JReal r) = (r \<noteq> 0)"
| "truthy (JStr s) = (s \<noteq> [])"
| "truthy (JList xs) = (xs \<noteq> [])"
| "truthy (JDict kvs) = (kvs \<noteq> [])"

fun is_dict :: "json \<Rightarrow> bool" where
  "is_dict (JDict kvs) = True"
| "is_dict _ = False"

text \<open>\<^verbatim>\<open>int(x)\<close> of a float truncates towards zero.\<close>

definition py_int :: "real \<Rightarrow> int" where
  "py_int x = (if 0 \<le> x then \<lfloor>x\<rfloor> else \<lceil>x\<rceil>)"

section \<open>The environment\<close>

text \<open>
  \<^verbatim>\<open>random.uniform(a, b)\<close> is \<^verbatim>\<open>a + (b - a) * random()\<close> with \<^verbatim>\<open>random()\<close> in \<open>[0, 1)\<close>.
  The generator's state is the sequence of the values \<^verbatim>\<open>random()\<close> will return; a draw
  takes the first and leaves the rest.
\<close>

type_synonym rng = "nat \<Rightarrow> real"

definition random_uniform :: "real \<Rightarrow> real \<Rightarrow> rng \<Rightarrow> real \<times> rng" where
  "random_uniform a b g = (a + (b - a) * g 0, \<lambda>n. g (Suc n))"

definition unit_draws :: "rng \<Rightarrow> bool" where
  "unit_draws g = (\<forall>n. 0 \<le> g n \<and> g n < 1)"

text \<open>
  The clock: \<open>time_now\<close> is \<^verbatim>\<open>int(time.time())\<close>, read once in a modelled call, and
  \<open>local_hour t\<close> is \<^verbatim>\<open>datetime.datetime.fromtimestamp(t).hour\<close>, which depends on the
  machine's time zone and raises for a timestamp outside the years the datetime type
  can hold.
\<close>

record clock =
  time_now :: int
  local_hour :: "int \<Rightarrow> py_error + int"

definition valid_timestamp :: "clock \<Rightarrow> int \<Rightarrow> bool" where
  "valid_timestamp c t = (case local_hour c t of Inl e \<Rightarrow> False | Inr h \<Rightarrow> 0 \<le> h \<and> h \<le> 23)"

text \<open>A clock on UTC, for concrete runs.\<close>

definition utc_clock :: "int \<Rightarrow> clock" where
  "utc_clock now = \<lparr> time_now = now, local_hour = (\<lambda>t. Inr ((t div 3600) mod 24)) \<rparr>"

section \<open>FakeDataGenerator\<close>

definition time_factor :: "int \<Rightarrow> real" where
  "time_factor hour = 1.0 + 0.3 * \<bar>real_of_int (hour - 12)\<bar> / 12"

definition location_scaled :: "real \<Rightarrow> real \<Rightarrow> real \<Rightarrow> real" where
  "location_scaled lat lon base_pollution =
     (if \<bar>lat - 39.9042\<bar> < 1 \<and> \<bar>lon - 116.4074\<bar> < 1 then base_pollution * 1.5
      else if \<bar>lat - 31.2304\<bar> < 1 \<and> \<bar>lon - 121.4737\<bar> < 1 then base_pollution * 1.3
      else base_pollution)"

text \<open>The pollution intensity the observation is computed from.\<close>

definition intensity :: "real \<Rightarrow> real \<Rightarrow> int \<Rightarrow> real \<Rightarrow> real" where
  "intensity lat lon hour base_pollution = location_scaled lat lon base_pollution * time_factor hour"

definition aqi_of :: "real \<Rightarrow> int" where
  "aqi_of base_pollution = min 5 (max 1 (py_int (1 + base_pollution * 4)))"

definition generate_fake_data ::
  "clock \<Rightarrow> real \<Rightarrow> real \<Rightarrow> int option \<Rightarrow> rng \<Rightarrow> (py_error + json) \<times> rng" where
  "generate_fake_data c lat lon timestamp g0 =
     (let ts = (case timestamp of None \<Rightarrow> time_now c | Some t \<Rightarrow> t);
          (base0, g1) = random_uniform 0.3 0.8 g0
      in case local_hour c ts of
           Inl e \<Rightarrow> (Inl e, g1)
         | Inr hour \<Rightarrow>
             (let base_pollution = intensity lat lon hour base0;
                  (u_co, g2) = random_uniform (-50) 300 g1;
                  (u_no, g3) = random_uniform 0 10 g2;
                  (u_no2, g4) = random_uniform 0 50 g3;
                  (u_o3, g5) = random_uniform (-20) 40 g4;
                  (u_so2, g6) = random_uniform 0 20 g5;
                  (u_pm2_5, g7) = random_uniform 0 75 g6;
                  (u_pm10, g8) = random_uniform 0 150 g7;
                  (u_nh3, g9) = random_uniform 0 10 g8
              in (Inr (JDict
                    [(''coord'', JList [JReal lat, JReal lon]),
                     (''list'', JList [JDict
                        [(''dt'', JInt ts),
                         (''main'', JDict [(''aqi'', JInt (aqi_of base_pollution))]),
                         (''components'', JDict
                            [(''co'', JReal (200 + u_co * base_pollution)),
                             (''no'', JReal (u_no * base_pollution)),
                             (''no2'', JReal (u_no2 * base_pollution)),
                             (''o3'', JReal (60 + u_o3 * base_pollution)),
                             (''so2'', JReal (u_so2 * base_pollution)),
                             (''pm2_5'', JReal (u_pm2_5 * base_pollution)),
                             (''pm10'', JReal (u_pm10 * base_pollution)),
                             (''nh3'', JReal (u_nh3 * base_pollution))])]])]),
                  g9)))"

function bulk_loop ::
  "clock \<Rightarrow> real \<Rightarrow> real \<Rightarrow> int \<Rightarrow> int \<Rightarrow> json list \<Rightarrow> rng \<Rightarrow> (py_error + json list) \<times> rng" where
  "bulk_loop c lat lon current_time end_time historical_list g =
     (if current_time \<le> end_time then
        (case generate_fake_data c lat lon (Some current_time) g of
           (Inl e, g') \<Rightarrow> (Inl e, g')
         | (Inr fake_data, g') \<Rightarrow>
             (case bind_err (getitem_key fake_data ''list'') py_iter of
                Inl e \<Rightarrow> (Inl e, g')
              | Inr items \<Rightarrow>
                  bulk_loop c lat lon (current_time + 3600) end_time (historical_list @ items) g'))
      else (Inr historical_list, g))"
  by pat_completeness auto
termination
  by (relation "measure (\<lambda>(c, lat, lon, current_time, end_time, l, g). nat (end_time - current_time + 1))")
     auto

definition generate_bulk_historical_data ::
  "clock \<Rightarrow> real \<Rightarrow> real \<Rightarrow> int \<Rightarrow> int \<Rightarrow> rng \<Rightarrow> (py_error + json) \<times> rng" where
  "generate_bulk_historical_data c lat lon start_time end_time g =
     (case bulk_loop c lat lon start_time end_time [] g of
        (Inl e, g') \<Rightarrow> (Inl e, g')
      | (Inr historical_list, g') \<Rightarrow>
          (Inr (JDict [(''coord'', JList [JReal lat, JReal lon]),
                       (''list'', JList historical_list),
                       (''source'', JStr ''Synthetic Fallback'')]), g'))"

section \<open>The Store\<close>

text \<open>
  The table \<^verbatim>\<open>aqi_data\<close>. A stored value is NULL, an integer, a real or a text. A row is
  what \<^verbatim>\<open>dict(row)\<close> gives for it, column name to value, without the columns SQLite
  fills in by itself (\<^verbatim>\<open>id\<close>, which is the position of the row in the table, and
  \<^verbatim>\<open>created_at\<close>).
\<close>

datatype sqlval = SNull | SInt int | SReal real | SText string

datatype affinity = INTEGER | REAL | TEXT

type_synonym row = "(string \<times> sqlval) list"

text \<open>The columns of the INSERT statement in its order: name, affinity, NOT NULL.\<close>

definition aqi_data_columns :: "(string \<times> affinity \<times> bool) list" where
  "aqi_data_columns =
     [(''timestamp'', INTEGER, True),
      (''latitude'', REAL, True),
      (''longitude'', REAL, True),
      (''aqi'', INTEGER, True),
      (''pm2_5'', REAL, False),
      (''pm10'', REAL, False),
      (''co'', REAL, False),
      (''no'', REAL, False),
      (''no2'', REAL, False),
      (''o3'', REAL, False),
      (''so2'', REAL, False),
      (''nh3'', REAL, False),
      (''location_name'', TEXT, False),
      (''source'', TEXT, True)]"

definition column :: "row \<Rightarrow> string \<Rightarrow> sqlval" where
  "column r name = (case map_of r name of None \<Rightarrow> SNull | Some v \<Rightarrow> v)"

text \<open>
  SQLite's conversions between numbers and their text are taken as given: how a number
  prints, and which texts read as a number.
\<close>

record sqlite =
  text_of_number :: "sqlval \<Rightarrow> string"
  number_of_text :: "string \<Rightarrow> sqlval option"

text \<open>
  Binding a Python value to a \<^verbatim>\<open>?\<close>: None is NULL, a bool is an integer, an integer must
  fit 64 bits, a list or a dict cannot be bound.
\<close>

fun bind_param :: "json \<Rightarrow> py_error + sqlval" where
  "bind_param JNull = Inr SNull"
| "bind_param (JBool b) = Inr (SInt (if b then 1 else 0))"
| "bind_param (JInt i) =
     (if - (2 ^ 63) \<le> i \<and> i < 2 ^ 63 then Inr (SInt i) else Inl OverflowError)"
| "bind_param (JReal r) = Inr (SReal r)"
| "bind_param (JStr s) = Inr (SText s)"
| "bind_param (JList xs) = Inl InterfaceError"
| "bind_param (JDict kvs) = Inl InterfaceError"

text \<open>A real that is a whole number in the 64-bit range is stored as an integer.\<close>

definition integer_if_whole :: "sqlval \<Rightarrow> sqlval" where
  "integer_if_whole v =
     (case v of
        SReal r \<Rightarrow>
          (if r = real_of_int \<lfloor>r\<rfloor> \<and> - (2 ^ 63) \<le> \<lfloor>r\<rfloor> \<and> \<lfloor>r\<rfloor> < 2 ^ 63 then SInt \<lfloor>r\<rfloor> else SReal r)
      | _ \<Rightarrow> v)"

definition real_if_integer :: "sqlval \<Rightarrow> sqlval" where
  "real_if_integer v = (case v of SInt i \<Rightarrow> SReal (real_of_int i) | _ \<Rightarrow> v)"

text \<open>What a column of the given affinity stores for a value.\<close>

fun apply_affinity :: "sqlite \<Rightarrow> affinity \<Rightarrow> sqlval \<Rightarrow> sqlval" where
  "apply_affinity sq TEXT (SInt i) = SText (text_of_number sq (SInt i))"
| "apply_affinity sq TEXT (SReal r) = SText (text_of_number sq (SReal r))"
| "apply_affinity sq TEXT v = v"
| "apply_affinity sq INTEGER (SText s) =
     (case number_of_text sq s of None \<Rightarrow> SText s | Some n \<Rightarrow> integer_if_whole n)"
| "apply_affinity sq INTEGER v = integer_if_whole v"
| "apply_affinity sq REAL (SText s) =
     (case number_of_text sq s of None \<Rightarrow> SText s | Some n \<Rightarrow> real_if_integer n)"
| "apply_affinity sq REAL v = real_if_integer v"

text \<open>The first error of a sequence of evaluations, left to right, or all the values.\<close>

fun sequence_err :: "('e + 'a) list \<Rightarrow> 'e + 'a list" where
  "sequence_err [] = Inr []"
| "sequence_err (m # ms) =
     (case m of
        Inl e \<Rightarrow> Inl e
      | Inr x \<Rightarrow> (case sequence_err ms of Inl e \<Rightarrow> Inl e | Inr xs \<Rightarrow> Inr (x # xs)))"

text \<open>
  A connection holds the committed table and the rows of the open transaction. The
  store is the table, or it is out of order and every connection attempt raises.
\<close>

record connection =
  committed :: "row list"
  pending :: "row list"

datatype store = Table "row list" | Faulty

fun get_db :: "store \<Rightarrow> py_error + connection" where
  "get_db (Table rows) = Inr \<lparr> committed = rows, pending = [] \<rparr>"
| "get_db Faulty = Inl OperationalError"

definition commit :: "connection \<Rightarrow> connection" where
  "commit conn = conn \<lparr> committed := committed conn @ pending conn, pending := [] \<rparr>"

text \<open>Closing a connection drops the rows that were not committed.\<close>

definition close_db :: "connection \<Rightarrow> store" where
  "close_db conn = Table (committed conn)"

text \<open>
  The row an INSERT stores for the values given for its \<^verbatim>\<open>?\<close>s: the values are bound,
  the NOT NULL columns are checked, and each column stores its value under its affinity.
\<close>

definition stored_row :: "sqlite \<Rightarrow> json list \<Rightarrow> py_error + row" where
  "stored_row sq params =
     (if length params \<noteq> length aqi_data_columns then Inl InterfaceError
      else case sequence_err (map bind_param params) of
        Inl e \<Rightarrow> Inl e
      | Inr vs \<Rightarrow>
          (if \<exists>(cl, v) \<in> set (zip aqi_data_columns vs). snd (snd cl) \<and> v = SNull
           then Inl IntegrityError
           else Inr (map (\<lambda>(cl, v). (fst cl, apply_affinity sq (fst (snd cl)) v))
                       (zip aqi_data_columns vs))))"

text \<open>
  \<^verbatim>\<open>cursor.execute('INSERT INTO aqi_data (...) VALUES (?, ...)', params)\<close>: the row joins the
  open transaction.
\<close>

definition execute_insert :: "sqlite \<Rightarrow> json list \<Rightarrow> connection \<Rightarrow> (py_error + unit) \<times> connection" where
  "execute_insert sq params conn =
     (case stored_row sq params of
        Inl e \<Rightarrow> (Inl e, conn)
      | Inr r \<Rightarrow> (Inr (), conn \<lparr> pending := pending conn @ [r] \<rparr>))"

text \<open>\<^verbatim>\<open>item["components"].get(k)\<close>\<close>

definition component :: "json \<Rightarrow> string \<Rightarrow> py_error + json" where
  "component item k = bind_err (getitem_key item ''components'') (\<lambda>comps. dict_get comps k JNull)"

text \<open>The tuple of values of one INSERT, evaluated left to right.\<close>

definition insert_params :: "json \<Rightarrow> json \<Rightarrow> json \<Rightarrow> json \<Rightarrow> json \<Rightarrow> py_error + json list" where
  "insert_params data lat lon location_name item =
     sequence_err
       [getitem_key item ''dt'',
        Inr lat,
        Inr lon,
        bind_err (getitem_key item ''main'') (\<lambda>m. getitem_key m ''aqi''),
        component item ''pm2_5'',
        component item ''pm10'',
        component item ''co'',
        component item ''no'',
        component item ''no2'',
        component item ''o3'',
        component item ''so2'',
        component item ''nh3'',
        Inr location_name,
        dict_get data ''source'' (JStr ''unknown'')]"

fun save_loop ::
  "sqlite \<Rightarrow> json \<Rightarrow> json \<Rightarrow> json \<Rightarrow> json \<Rightarrow> json list \<Rightarrow> connection \<Rightarrow> (py_error + unit) \<times> connection" where
  "save_loop sq data lat lon location_name [] conn = (Inr (), conn)"
| "save_loop sq data lat lon location_name (item # items) conn =
     (case insert_params data lat lon location_name item of
        Inl e \<Rightarrow> (Inl e, conn)
      | Inr params \<Rightarrow>
          (case execute_insert sq params conn of
             (Inl e, conn') \<Rightarrow> (Inl e, conn')
           | (Inr u, conn') \<Rightarrow> save_loop sq data lat lon location_name items conn'))"

text \<open>The coordinates of an envelope, from an object or from a pair.\<close>

definition read_coord :: "json \<Rightarrow> py_error + json \<times> json" where
  "read_coord raw_coord =
     (if is_dict raw_coord then
        bind_err (dict_get raw_coord ''lat'' JNull) (\<lambda>lat.
        bind_err (dict_get raw_coord ''lon'' JNull) (\<lambda>lon. Inr (lat, lon)))
      else
        bind_err (getitem_idx raw_coord 0) (\<lambda>lat.
        bind_err (getitem_idx raw_coord 1) (\<lambda>lon. Inr (lat, lon))))"

text \<open>The location name in force: the one in the data, if the data is a dict and has one.\<close>

definition effective_location_name :: "json \<Rightarrow> json \<Rightarrow> json" where
  "effective_location_name data location_name =
     (case data of
        JDict kvs \<Rightarrow> (case map_of kvs ''location_name'' of None \<Rightarrow> location_name | Some v \<Rightarrow> v)
      | _ \<Rightarrow> location_name)"

text \<open>The body of the \<^verbatim>\<open>with get_db() as conn\<close> block of \<^verbatim>\<open>save_to_database\<close>.\<close>

definition save_block :: "sqlite \<Rightarrow> json \<Rightarrow> json \<Rightarrow> connection \<Rightarrow> (py_error + unit) \<times> connection" where
  "save_block sq data location_name conn =
     (let location_name' = effective_location_name data location_name in
      case bind_err (dict_get data ''coord'' (JDict [])) read_coord of
        Inl e \<Rightarrow> (Inl e, conn)
      | Inr (lat, lon) \<Rightarrow>
          (case bind_err (dict_get data ''list'' (JList [])) py_iter of
             Inl e \<Rightarrow> (Inl e, conn)
           | Inr items \<Rightarrow>
               (case save_loop sq data lat lon location_name' items conn of
                  (Inl e, conn') \<Rightarrow> (Inl e, conn')
                | (Inr u, conn') \<Rightarrow> (Inr (), commit conn'))))"

text \<open>
  The \<^verbatim>\<open>try\<close> block of \<^verbatim>\<open>save_to_database\<close>: its outcome and the store it leaves. The
  connection is closed on every way out.
\<close>

definition save_try :: "sqlite \<Rightarrow> json \<Rightarrow> json \<Rightarrow> store \<Rightarrow> (py_error + unit) \<times> store" where
  "save_try sq data location_name st =
     (case get_db st of
        Inl e \<Rightarrow> (Inl e, st)
      | Inr conn \<Rightarrow>
          (case save_block sq data location_name conn of (r, conn') \<Rightarrow> (r, close_db conn')))"

text \<open>\<^verbatim>\<open>save_to_database\<close>: the exception, if any, is logged and dropped.\<close>

definition save_to_database :: "sqlite \<Rightarrow> json \<Rightarrow> json \<Rightarrow> store \<Rightarrow> store" where
  "save_to_database sq data location_name st = snd (save_try sq data location_name st)"

text \<open>
  The value of a column in a comparison with a number: NULL compares to nothing and a text
  is above every number, so neither lies between two numbers.
\<close>

fun sql_number :: "sqlval \<Rightarrow> real option" where
  "sql_number (SInt i) = Some (real_of_int i)"
| "sql_number (SReal r) = Some r"
| "sql_number _ = None"

definition sql_between :: "sqlval \<Rightarrow> real \<Rightarrow> real \<Rightarrow> bool" where
  "sql_between v lo hi = (case sql_number v of None \<Rightarrow> False | Some x \<Rightarrow> lo \<le> x \<and> x \<le> hi)"

definition in_window :: "real \<Rightarrow> real \<Rightarrow> int \<Rightarrow> int \<Rightarrow> row \<Rightarrow> bool" where
  "in_window lat lon start_time end_time r =
     (sql_between (column r ''latitude'') (lat - 0.1) (lat + 0.1)
      \<and> sql_between (column r ''longitude'') (lon - 0.1) (lon + 0.1)
      \<and> sql_between (column r ''timestamp'') (real_of_int start_time) (real_of_int end_time))"

text \<open>
  The key of \<^verbatim>\<open>ORDER BY timestamp\<close>; every row that passed the WHERE clause has a number
  there. The order SQLite gives to rows of equal timestamp is not specified; the model
  keeps them in table order.
\<close>

definition timestamp_key :: "row \<Rightarrow> real" where
  "timestamp_key r = (case sql_number (column r ''timestamp'') of None \<Rightarrow> 0 | Some x \<Rightarrow> x)"

definition query_try :: "store \<Rightarrow> real \<Rightarrow> real \<Rightarrow> int \<Rightarrow> int \<Rightarrow> py_error + row list" where
  "query_try st lat lon start_time end_time =
     bind_err (get_db st) (\<lambda>conn.
       Inr (sort_key timestamp_key (filter (in_window lat lon start_time end_time) (committed conn))))"

definition get_historical_from_db :: "store \<Rightarrow> real \<Rightarrow> real \<Rightarrow> int \<Rightarrow> int \<Rightarrow> row list" where
  "get_historical_from_db st lat lon start_time end_time =
     (case query_try st lat lon start_time end_time of Inl e \<Rightarrow> [] | Inr rows \<Rightarrow> rows)"

section \<open>AQIService\<close>

text \<open>
  The provider is reached by one GET per fetch. \<open>upstream\<close> is what
  \<^verbatim>\<open>requests.get\<close>, \<^verbatim>\<open>raise_for_status\<close> and \<^verbatim>\<open>response.json()\<close> give for a request: an
  exception or the parsed body. The file of pre-generated samples is absent, or reading
  and parsing it raises, or it holds a JSON value.
\<close>

datatype api_request =
    CurrentRequest real real
  | ForecastRequest real real
  | HistoryRequest real real int int

record env =
  upstream :: "api_request \<Rightarrow> py_error + json"
  clk :: clock
  fake_data_file :: "(py_error + json) option"
  sqlite_conv :: sqlite
  API_SECRET_KEY :: "string option"
  parse_float :: "string \<Rightarrow> real option"
  fromisoformat_timestamp :: "string \<Rightarrow> py_error + int"
  error_message :: "py_error \<Rightarrow> string"

text \<open>What a call changes: the random generator, the requests sent upstream, the store.\<close>

record world =
  rng_state :: rng
  sent :: "api_request list"
  db :: store

definition locations :: "(real \<times> real \<times> string) list" where
  "locations =
     [(40.7128, -74.0060, ''New York''),
      (51.5074, -0.1278, ''London''),
      (35.6762, 139.6503, ''Tokyo''),
      (39.9042, 116.4074, ''Beijing''),
      (31.2304, 121.4737, ''Shanghai'')]"

fun find_location :: "(real \<times> real \<times> string) list \<Rightarrow> real \<Rightarrow> real \<Rightarrow> string option" where
  "find_location [] lat lon = None"
| "find_location ((loc_lat, loc_lon, name) # rest) lat lon =
     (if \<bar>lat - loc_lat\<bar> < 0.1 \<and> \<bar>lon - loc_lon\<bar> < 0.1 then Some name
      else find_location rest lat lon)"

definition get_location_name :: "real \<Rightarrow> real \<Rightarrow> string option" where
  "get_location_name lat lon = find_location locations lat lon"

text \<open>
  The loop over the samples of the file: the first sample whose coordinates are less than
  one degree away. The second coordinate is read only when the first one is near.
\<close>

definition sample_coord :: "json \<Rightarrow> nat \<Rightarrow> py_error + real" where
  "sample_coord item i =
     bind_err (bind_err (getitem_key item ''coord'') (\<lambda>coord. getitem_idx coord i)) to_float"

fun scan_samples :: "json list \<Rightarrow> real \<Rightarrow> real \<Rightarrow> py_error + json option" where
  "scan_samples [] lat lon = Inr None"
| "scan_samples (item # items) lat lon =
     bind_err (sample_coord item 0) (\<lambda>a.
       if \<bar>a - lat\<bar> < 1 then
         bind_err (sample_coord item 1) (\<lambda>b.
           if \<bar>b - lon\<bar> < 1 then Inr (Some item) else scan_samples items lat lon)
       else scan_samples items lat lon)"

text \<open>The resolved name, when there is one, and the source tag are written into the result.\<close>

definition tag_fallback :: "string option \<Rightarrow> json \<Rightarrow> py_error + json" where
  "tag_fallback location_name result =
     bind_err
       (case location_name of
          None \<Rightarrow> Inr result
        | Some name \<Rightarrow> (if name \<noteq> [] then setitem result ''location_name'' (JStr name) else Inr result))
       (\<lambda>r. setitem r ''source'' (JStr ''Synthetic Fallback''))"

text \<open>The \<^verbatim>\<open>try\<close> block of \<^verbatim>\<open>_get_fallback_data\<close>.\<close>

definition fallback_try :: "clock \<Rightarrow> (py_error + json) option \<Rightarrow> real \<Rightarrow> real \<Rightarrow> rng \<Rightarrow> (py_error + json) \<times> rng" where
  "fallback_try c file lat lon g =
     (let location_name = get_location_name lat lon in
      case (case file of
              None \<Rightarrow> Inr None
            | Some content \<Rightarrow>
                bind_err (bind_err content py_iter) (\<lambda>items. scan_samples items lat lon)) of
        Inl e \<Rightarrow> (Inl e, g)
      | Inr (Some item) \<Rightarrow> (tag_fallback location_name item, g)
      | Inr None \<Rightarrow>
          (case generate_fake_data c lat lon None g of
             (Inl e, g') \<Rightarrow> (Inl e, g')
           | (Inr result, g') \<Rightarrow> (tag_fallback location_name result, g')))"

text \<open>\<^verbatim>\<open>_get_fallback_data\<close>: when the block raises, a fresh point without a name.\<close>

definition get_fallback_data :: "clock \<Rightarrow> (py_error + json) option \<Rightarrow> real \<Rightarrow> real \<Rightarrow> rng \<Rightarrow> (py_error + json) \<times> rng" where
  "get_fallback_data c file lat lon g =
     (case fallback_try c file lat lon g of
        (Inr result, g') \<Rightarrow> (Inr result, g')
      | (Inl e, g') \<Rightarrow>
          (case generate_fake_data c lat lon None g' of
             (Inl e', g'') \<Rightarrow> (Inl e', g'')
           | (Inr result, g'') \<Rightarrow> (setitem result ''source'' (JStr ''Synthetic Fallback''), g'')))"

text \<open>The \<^verbatim>\<open>try\<close> block shared by the three fetches: the body, tagged with its source.\<close>

definition upstream_fetch :: "env \<Rightarrow> api_request \<Rightarrow> py_error + json" where
  "upstream_fetch e rq =
     bind_err (upstream e rq) (\<lambda>data. setitem data ''source'' (JStr ''OpenWeatherMap API''))"

definition fetch_current_aqi :: "env \<Rightarrow> real \<Rightarrow> real \<Rightarrow> world \<Rightarrow> (py_error + json) \<times> world" where
  "fetch_current_aqi e lat lon w =
     (let w1 = w \<lparr> sent := sent w @ [CurrentRequest lat lon] \<rparr> in
      case upstream_fetch e (CurrentRequest lat lon) of
        Inr data \<Rightarrow> (Inr data, w1)
      | Inl err \<Rightarrow>
          (case get_fallback_data (clk e) (fake_data_file e) lat lon (rng_state w1) of
             (r, g') \<Rightarrow> (r, w1 \<lparr> rng_state := g' \<rparr>)))"

fun forecast_loop ::
  "clock \<Rightarrow> real \<Rightarrow> real \<Rightarrow> int \<Rightarrow> nat list \<Rightarrow> json list \<Rightarrow> rng \<Rightarrow> (py_error + json list) \<times> rng" where
  "forecast_loop c lat lon current_time [] acc g = (Inr acc, g)"
| "forecast_loop c lat lon current_time (hours_ahead # rest) acc g =
     (case generate_fake_data c lat lon (Some (current_time + int hours_ahead * 3600)) g of
        (Inl e, g') \<Rightarrow> (Inl e, g')
      | (Inr fake_item, g') \<Rightarrow>
          (case bind_err (getitem_key fake_item ''list'') (\<lambda>l. getitem_idx l 0) of
             Inl e \<Rightarrow> (Inl e, g')
           | Inr obs \<Rightarrow> forecast_loop c lat lon current_time rest (acc @ [obs]) g'))"

definition generate_forecast_fallback :: "clock \<Rightarrow> real \<Rightarrow> real \<Rightarrow> rng \<Rightarrow> (py_error + json) \<times> rng" where
  "generate_forecast_fallback c lat lon g =
     (case forecast_loop c lat lon (time_now c) (map (\<lambda>k. 3 * k) [0..<32]) [] g of
        (Inl e, g') \<Rightarrow> (Inl e, g')
      | (Inr l, g') \<Rightarrow>
          (Inr (JDict [(''coord'', JList [JReal lat, JReal lon]),
                       (''list'', JList l),
                       (''source'', JStr ''Synthetic Fallback'')]), g'))"

definition fetch_forecast_aqi :: "env \<Rightarrow> real \<Rightarrow> real \<Rightarrow> world \<Rightarrow> (py_error + json) \<times> world" where
  "fetch_forecast_aqi e lat lon w =
     (let w1 = w \<lparr> sent := sent w @ [ForecastRequest lat lon] \<rparr> in
      case upstream_fetch e (ForecastRequest lat lon) of
        Inr data \<Rightarrow> (Inr data, w1)
      | Inl err \<Rightarrow>
          (case generate_forecast_fallback (clk e) lat lon (rng_state w1) of
             (r, g') \<Rightarrow> (r, w1 \<lparr> rng_state := g' \<rparr>)))"

definition fetch_historical_aqi ::
  "env \<Rightarrow> real \<Rightarrow> real \<Rightarrow> int \<Rightarrow> int \<Rightarrow> world \<Rightarrow> (py_error + json) \<times> world" where
  "fetch_historical_aqi e lat lon start end w =
     (let w1 = w \<lparr> sent := sent w @ [HistoryRequest lat lon start end] \<rparr> in
      case upstream_fetch e (HistoryRequest lat lon start end) of
        Inr data \<Rightarrow> (Inr data, w1)
      | Inl err \<Rightarrow>
          (case generate_bulk_historical_data (clk e) lat lon start end (rng_state w1) of
             (r, g') \<Rightarrow> (r, w1 \<lparr> rng_state := g' \<rparr>)))"

section \<open>The backfill job\<close>





section \<open>The HTTP endpoints\<close>

text \<open>
  A request carries the \<^verbatim>\<open>X-API-Key\<close> header, if any, and the query parameters as texts.
  A response is a status and a JSON body. \<open>parse_float\<close> is Python's \<^verbatim>\<open>float\<close> on a text,
  \<open>None\<close> where it raises ValueError, so that \<open>args_get_float\<close> is
  \<^verbatim>\<open>request.args.get(k, type=float)\<close>.
\<close>

record request =
  api_key_header :: "string option"
  args :: "(string \<times> string) list"

type_synonym response = "nat \<times> json"

type_synonym view = "request \<Rightarrow> world \<Rightarrow> (py_error + response) \<times> world"

definition error_body :: "string \<Rightarrow> json" where
  "error_body msg = JDict [(''error'', JStr msg)]"

text \<open>The header is there, not empty, and equal to the configured secret.\<close>

definition api_key_ok :: "env \<Rightarrow> request \<Rightarrow> bool" where
  "api_key_ok e req =
     (case api_key_header req of
        None \<Rightarrow> False
      | Some h \<Rightarrow> h \<noteq> [] \<and> Some h = API_SECRET_KEY e)"

definition require_api_key :: "env \<Rightarrow> view \<Rightarrow> view" where
  "require_api_key e f req w =
     (if api_key_ok e req then f req w
      else (Inr (401, error_body ''API key is missing or invalid''), w))"

definition args_get_float :: "env \<Rightarrow> request \<Rightarrow> string \<Rightarrow> real option" where
  "args_get_float e req k = (case map_of (args req) k of None \<Rightarrow> None | Some s \<Rightarrow> parse_float e s)"

definition json_of_float :: "real option \<Rightarrow> json" where
  "json_of_float x = (case x of None \<Rightarrow> JNull | Some r \<Rightarrow> JReal r)"

definition json_of_str :: "string option \<Rightarrow> json" where
  "json_of_str x = (case x of None \<Rightarrow> JNull | Some s \<Rightarrow> JStr s)"

text \<open>The function under \<^verbatim>\<open>@app.route('/api/current')\<close>, before the key check is put around it.\<close>

definition current_view :: "env \<Rightarrow> view" where
  "current_view e req w =
     (let lat = args_get_float e req ''lat'';
          lon = args_get_float e req ''lon''
      in if \<not> (truthy (json_of_float lat) \<and> truthy (json_of_float lon))
         then (Inr (400, error_body ''Location required (lat/lon)''), w)
         else (case (lat, lon) of
                 (Some la, Some lo) \<Rightarrow>
                   (case fetch_current_aqi e la lo w of
                      (Inl err, w') \<Rightarrow> (Inl err, w')
                    | (Inr data, w') \<Rightarrow>
                        (if truthy data
                         then (Inr (200, data),
                               w' \<lparr> db := save_to_database (sqlite_conv e) data JNull (db w') \<rparr>)
                         else (Inr (500, error_body ''Failed to fetch AQI data''), w')))
               | _ \<Rightarrow> (Inr (400, error_body ''Location required (lat/lon)''), w)))"

definition get_current_aqi :: "env \<Rightarrow> view" where
  "get_current_aqi e = require_api_key e (current_view e)"

definition forecast_view :: "env \<Rightarrow> view" where
  "forecast_view e req w =
     (let lat = args_get_float e req ''lat'';
          lon = args_get_float e req ''lon''
      in if \<not> (truthy (json_of_float lat) \<and> truthy (json_of_float lon))
         then (Inr (400, error_body ''Coordinates required''), w)
         else (case (lat, lon) of
                 (Some la, Some lo) \<Rightarrow>
                   (case fetch_forecast_aqi e la lo w of
                      (Inl err, w') \<Rightarrow> (Inl err, w')
                    | (Inr data, w') \<Rightarrow>
                        (if truthy data then (Inr (200, data), w')
                         else (Inr (500, error_body ''Failed to fetch forecast data''), w')))
               | _ \<Rightarrow> (Inr (400, error_body ''Coordinates required''), w)))"

definition get_forecast_aqi :: "env \<Rightarrow> view" where
  "get_forecast_aqi e = require_api_key e (forecast_view e)"

fun json_of_sqlval :: "sqlval \<Rightarrow> json" where
  "json_of_sqlval SNull = JNull"
| "json_of_sqlval (SInt i) = JInt i"
| "json_of_sqlval (SReal r) = JReal r"
| "json_of_sqlval (SText s) = JStr s"

definition json_of_row :: "row \<Rightarrow> json" where
  "json_of_row r = JDict (map (\<lambda>kv. (fst kv, json_of_sqlval (snd kv))) r)"

text \<open>The \<^verbatim>\<open>try\<close> block of the historical endpoint.\<close>

definition historical_try ::
  "env \<Rightarrow> real \<Rightarrow> real \<Rightarrow> string \<Rightarrow> string \<Rightarrow> world \<Rightarrow> (py_error + response) \<times> world" where
  "historical_try e lat lon start_date end_date w =
     (case fromisoformat_timestamp e start_date of
        Inl err \<Rightarrow> (Inl err, w)
      | Inr start_ts \<Rightarrow>
          (case fromisoformat_timestamp e end_date of
             Inl err \<Rightarrow> (Inl err, w)
           | Inr end_ts \<Rightarrow>
               (let db_data = get_historical_from_db (db w) lat lon start_ts end_ts in
                if db_data \<noteq> [] then
                  (Inr (200, JDict [(''coord'', JList [JReal lat, JReal lon]),
                                    (''list'', JList (map json_of_row db_data)),
                                    (''source'', JStr ''Local Database'')]), w)
                else
                  (case fetch_historical_aqi e lat lon start_ts end_ts w of
                     (Inl err, w') \<Rightarrow> (Inl err, w')
                   | (Inr api_data, w') \<Rightarrow>
                       (if truthy api_data
                        then (Inr (200, api_data),
                              w' \<lparr> db := save_to_database (sqlite_conv e) api_data JNull (db w') \<rparr>)
                        else (Inr (404, error_body ''No historical data available''), w'))))))"

definition historical_view :: "env \<Rightarrow> view" where
  "historical_view e req w =
     (let lat = args_get_float e req ''lat'';
          lon = args_get_float e req ''lon'';
          start_date = map_of (args req) ''start'';
          end_date = map_of (args req) ''end''
      in if \<not> (truthy (json_of_float lat) \<and> truthy (json_of_float lon)
                 \<and> truthy (json_of_str start_date) \<and> truthy (json_of_str end_date))
         then (Inr (400, error_body ''lat, lon, start, and end parameters required''), w)
         else (case (lat, lon, start_date, end_date) of
                 (Some la, Some lo, Some sd, Some ed) \<Rightarrow>
                   (case historical_try e la lo sd ed w of
                      (Inl err, w') \<Rightarrow> (Inr (400, error_body (error_message e err)), w')
                    | (Inr resp, w') \<Rightarrow> (Inr resp, w'))
               | _ \<Rightarrow> (Inr (400, error_body ''lat, lon, start, and end parameters required''), w)))"

definition get_historical_aqi :: "env \<Rightarrow> view" where
  "get_historical_aqi e = require_api_key e (historical_view e)"

section \<open>The file of samples\<close>

text \<open>
  \<^verbatim>\<open>save_fake_data_to_file\<close>: for each location, sixteen points three hours apart going
  back from now, each given the city as its location name. The result is the list dumped
  into the file.
\<close>

fun save_fake_loop ::
  "clock \<Rightarrow> ((real \<times> real \<times> string) \<times> nat) list \<Rightarrow> json list \<Rightarrow> rng \<Rightarrow> (py_error + json list) \<times> rng" where
  "save_fake_loop c [] fake_samples g = (Inr fake_samples, g)"
| "save_fake_loop c ((loc, hours_ago) # rest) fake_samples g =
     (case loc of (lat, lon, city) \<Rightarrow>
       (case generate_fake_data c lat lon (Some (time_now c - int hours_ago * 3600)) g of
          (Inl e, g') \<Rightarrow> (Inl e, g')
        | (Inr fake_data, g') \<Rightarrow>
            (case setitem fake_data ''location_name'' (JStr city) of
               Inl e \<Rightarrow> (Inl e, g')
             | Inr named \<Rightarrow> save_fake_loop c rest (fake_samples @ [named]) g')))"

definition save_fake_data_to_file :: "clock \<Rightarrow> rng \<Rightarrow> (py_error + json list) \<times> rng" where
  "save_fake_data_to_file c g =
     save_fake_loop c (List.product locations (map (\<lambda>k. 3 * k) [0..<16])) [] g"

text \<open>
  A sample as that function writes it: an object with a pair of numbers as coordinates
  and a list of one observation.
\<close>

fun is_number_pair :: "json \<Rightarrow> bool" where
  "is_number_pair (JList [JReal a, JReal b]) = True"
| "is_number_pair _ = False"

fun is_singleton_list :: "json \<Rightarrow> bool" where
  "is_singleton_list (JList [ob]) = True"
| "is_singleton_list _ = False"

definition pre_generated_sample :: "json \<Rightarrow> bool" where
  "pre_generated_sample s =
     (case s of
        JDict kvs \<Rightarrow>
          (case map_of kvs ''coord'' of None \<Rightarrow> False | Some c \<Rightarrow> is_number_pair c)
          \<and> (case map_of kvs ''list'' of None \<Rightarrow> False | Some l \<Rightarrow> is_singleton_list l)
      | _ \<Rightarrow> False)"


section \<open>Reading envelopes, and the specification's own words\<close>

text \<open>The observations of an envelope, the category of an observation, its pollutants.\<close>

definition observations :: "json \<Rightarrow> py_error + json list" where
  "observations envelope = bind_err (getitem_key envelope ''list'') py_iter"

definition observation_aqi :: "json \<Rightarrow> py_error + json" where
  "observation_aqi item = bind_err (getitem_key item ''main'') (\<lambda>m. getitem_key m ''aqi'')"

definition pollutants :: "json \<Rightarrow> (string \<times> json) list" where
  "pollutants item = (case getitem_key item ''components'' of Inr (JDict comps) \<Rightarrow> comps | _ \<Rightarrow> [])"

text \<open>The category of the observation the generator returns for a timestamp.\<close>

definition generated_category :: "clock \<Rightarrow> real \<Rightarrow> real \<Rightarrow> int \<Rightarrow> rng \<Rightarrow> py_error + json" where
  "generated_category c lat lon t g =
     bind_err (fst (generate_fake_data c lat lon (Some t) g)) (\<lambda>envelope.
     bind_err (observations envelope) (\<lambda>l.
     bind_err (getitem_idx (JList l) 0) observation_aqi))"

text \<open>
  The category as the specification words it, \<open>clamp(round(1 + intensity*4), 1, 5)\<close>, to
  be compared with \<open>aqi_of\<close>, which is what the generator computes.
\<close>

definition spec_aqi_category :: "real \<Rightarrow> int" where
  "spec_aqi_category x = min 5 (max 1 (round (1 + x * 4)))"

section \<open>The data model's typed view\<close>

text \<open>
  The data model's typed view: an observation with its timestamp, its category and the
  pollutant values it has, and the envelope that carries a list of them with the
  coordinates, as a pair or as an object, and the source tag.
\<close>

record observation =
  dt :: int
  aqi :: int
  components :: "(string \<times> real) list"

definition valid_observation :: "observation \<Rightarrow> bool" where
  "valid_observation ob = (- (2 ^ 63) \<le> dt ob \<and> dt ob < 2 ^ 63 \<and> 1 \<le> aqi ob \<and> aqi ob \<le> 5)"

definition json_of_observation :: "observation \<Rightarrow> json" where
  "json_of_observation ob =
     JDict [(''dt'', JInt (dt ob)),
            (''main'', JDict [(''aqi'', JInt (aqi ob))]),
            (''components'', JDict (map (\<lambda>kv. (fst kv, JReal (snd kv))) (components ob)))]"

definition coord_pair :: "real \<Rightarrow> real \<Rightarrow> json" where
  "coord_pair lat lon = JList [JReal lat, JReal lon]"

definition coord_object :: "real \<Rightarrow> real \<Rightarrow> json" where
  "coord_object lat lon = JDict [(''lon'', JReal lon), (''lat'', JReal lat)]"

definition reading_envelope :: "json \<Rightarrow> observation list \<Rightarrow> string \<Rightarrow> json" where
  "reading_envelope coord obs src =
     JDict [(''coord'', coord),
            (''list'', JList (map json_of_observation obs)),
            (''source'', JStr src)]"

definition pollutant_names :: "string list" where
  "pollutant_names = [''pm2_5'', ''pm10'', ''co'', ''no'', ''no2'', ''o3'', ''so2'', ''nh3'']"

text \<open>What a pollutant column is expected to hold: the value, or NULL when it is missing.\<close>

definition pollutant_value :: "observation \<Rightarrow> string \<Rightarrow> sqlval" where
  "pollutant_value ob k = (case map_of (components ob) k of None \<Rightarrow> SNull | Some v \<Rightarrow> SReal v)"

text \<open>The timestamp and the pollutant values of a row, and of an observation.\<close>

definition row_readings :: "row \<Rightarrow> sqlval \<times> sqlval list" where
  "row_readings r = (column r ''timestamp'', map (column r) pollutant_names)"

definition observation_readings :: "observation \<Rightarrow> sqlval \<times> sqlval list" where
  "observation_readings ob = (SInt (dt ob), map (pollutant_value ob) pollutant_names)"

text \<open>The rows a batch of items gives, or the first error among them.\<close>

definition batch_rows :: "sqlite \<Rightarrow> json \<Rightarrow> json \<Rightarrow> json \<Rightarrow> json \<Rightarrow> json list \<Rightarrow> py_error + row list" where
  "batch_rows sq data lat lon location_name items =
     sequence_err (map (\<lambda>item. bind_err (insert_params data lat lon location_name item) (stored_row sq)) items)"

text \<open>The row expected for an observation stored at the given place, name and source.\<close>

definition observation_row :: "real \<Rightarrow> real \<Rightarrow> string option \<Rightarrow> string \<Rightarrow> observation \<Rightarrow> row" where
  "observation_row lat lon name src ob =
     [(''timestamp'', SInt (dt ob)),
      (''latitude'', SReal lat),
      (''longitude'', SReal lon),
      (''aqi'', SInt (aqi ob)),
      (''pm2_5'', pollutant_value ob ''pm2_5''),
      (''pm10'', pollutant_value ob ''pm10''),
      (''co'', pollutant_value ob ''co''),
      (''no'', pollutant_value ob ''no''),
      (''no2'', pollutant_value ob ''no2''),
      (''o3'', pollutant_value ob ''o3''),
      (''so2'', pollutant_value ob ''so2''),
      (''nh3'', pollutant_value ob ''nh3''),
      (''location_name'', (case name of None \<Rightarrow> SNull | Some n \<Rightarrow> SText n)),
      (''source'', SText src)]"

section \<open>Concrete environments for checking the theorems on runs\<close>

text \<open>No number prints and no text reads as a number: enough for well-typed rows.\<close>

definition plain_sqlite :: sqlite where
  "plain_sqlite = \<lparr> text_of_number = (\<lambda>v. []), number_of_text = (\<lambda>s. None) \<rparr>"

text \<open>
  A machine on UTC at the given time whose provider cannot be reached, with or without a
  file of samples; the secret is \<open>s3cret\<close>, and the only text that parses as a float is
  \<open>0\<close>.
\<close>

definition offline_env :: "int \<Rightarrow> (py_error + json) option \<Rightarrow> env" where
  "offline_env now file =
     \<lparr> upstream = (\<lambda>rq. Inl RequestException),
       clk = utc_clock now,
       fake_data_file = file,
       sqlite_conv = plain_sqlite,
       API_SECRET_KEY = Some ''s3cret'',
       parse_float = (\<lambda>s. if s = ''0'' then Some 0 else None),
       fromisoformat_timestamp = (\<lambda>s. Inl ValueError),
       error_message = (\<lambda>err. ''error'') \<rparr>"

text \<open>Every draw of the random generator is the same number.\<close>

definition constant_rng :: "real \<Rightarrow> rng" where
  "constant_rng x = (\<lambda>n. x)"

text \<open>An item and an envelope for concrete runs.\<close>

definition sample_item :: "int \<Rightarrow> json" where
  "sample_item t =
     JDict [(''dt'', JInt t), (''main'', JDict [(''aqi'', JInt 2)]),
            (''components'', JDict [(''co'', JReal 201.5), (''pm2_5'', JReal 7)])]"

definition sample_observation :: "int \<Rightarrow> observation" where
  "sample_observation t = \<lparr> dt = t, aqi = 2, components = [(''co'', 201.5), (''pm2_5'', 7)] \<rparr>"

section \<open>Basic facts\<close>

lemma bind_err_simps [simp]:
  "bind_err (Inl e) f = Inl e"
  "bind_err (Inr x) f = f x"
  by (simp_all add: bind_err_def)

lemma generate_fake_data_Inl:
  assumes "local_hour c (case timestamp of None \<Rightarrow> time_now c | Some t \<Rightarrow> t) = Inl err"
  shows "fst (generate_fake_data c lat lon timestamp g) = Inl err"
  using assms by (simp add: generate_fake_data_def random_uniform_def Let_def)

lemma generate_fake_data_Inr:
  assumes "local_hour c (case timestamp of None \<Rightarrow> time_now c | Some t \<Rightarrow> t) = Inr hour"
  shows "fst (generate_fake_data c lat lon timestamp g) =
    Inr (JDict
      [(''coord'', JList [JReal lat, JReal lon]),
       (''list'', JList [JDict
          [(''dt'', JInt (case timestamp of None \<Rightarrow> time_now c | Some t \<Rightarrow> t)),
           (''main'', JDict [(''aqi'', JInt (aqi_of (intensity lat lon hour (0.3 + 0.5 * g 0))))]),
           (''components'', JDict
              [(''co'', JReal (200 + (-50 + 350 * g 1) * intensity lat lon hour (0.3 + 0.5 * g 0))),
               (''no'', JReal (10 * g 2 * intensity lat lon hour (0.3 + 0.5 * g 0))),
               (''no2'', JReal (50 * g 3 * intensity lat lon hour (0.3 + 0.5 * g 0))),
               (''o3'', JReal (60 + (-20 + 60 * g 4) * intensity lat lon hour (0.3 + 0.5 * g 0))),
               (''so2'', JReal (20 * g 5 * intensity lat lon hour (0.3 + 0.5 * g 0))),
               (''pm2_5'', JReal (75 * g 6 * intensity lat lon hour (0.3 + 0.5 * g 0))),
               (''pm10'', JReal (150 * g 7 * intensity lat lon hour (0.3 + 0.5 * g 0))),
               (''nh3'', JReal (10 * g 8 * intensity lat lon hour (0.3 + 0.5 * g 0)))])]])])"
  using assms by (simp add: generate_fake_data_def random_uniform_def Let_def numeral_eq_Suc)

lemma time_factor_bounds:
  assumes "0 \<le> hour" "hour \<le> 23"
  shows "1 \<le> time_factor hour \<and> time_factor hour \<le> 1.3"
proof -
  have "\<bar>real_of_int (hour - 12)\<bar> \<le> 12" using assms by (simp add: abs_le_iff)
  then show ?thesis by (simp add: time_factor_def)
qed

lemma location_scaled_bounds:
  assumes "0 \<le> b"
  shows "b \<le> location_scaled lat lon b \<and> location_scaled lat lon b \<le> 1.5 * b"
  using assms by (simp add: location_scaled_def)

lemma intensity_bounds:
  assumes "0.3 \<le> b" "b \<le> 0.8" "0 \<le> hour" "hour \<le> 23"
  shows "0.3 \<le> intensity lat lon hour b \<and> intensity lat lon hour b \<le> 1.56"
proof -
  have b0: "0 \<le> b" using assms(1) by simp
  have l: "b \<le> location_scaled lat lon b" "location_scaled lat lon b \<le> 1.5 * b"
    using location_scaled_bounds [OF b0] by simp_all
  have t: "1 \<le> time_factor hour" "time_factor hour \<le> 1.3"
    using time_factor_bounds [OF assms(3,4)] by simp_all
  have l1: "0.3 \<le> location_scaled lat lon b" using l(1) assms(1) by linarith
  have l2: "location_scaled lat lon b \<le> 1.2" using l(2) assms(2) by linarith
  have lo: "0.3 * 1 \<le> location_scaled lat lon b * time_factor hour"
    by (rule mult_mono) (use l1 t in simp_all)
  have hi: "location_scaled lat lon b * time_factor hour \<le> 1.2 * 1.3"
    by (rule mult_mono) (use l1 l2 t in simp_all)
  show ?thesis using lo hi by (simp add: intensity_def)
qed

lemma base_draw_bounds:
  assumes "unit_draws g"
  shows "0.3 \<le> 0.3 + 0.5 * g 0 \<and> 0.3 + 0.5 * g 0 \<le> 0.8"
proof -
  have "0 \<le> g 0" "g 0 < 1" using assms by (simp_all add: unit_draws_def)
  then show ?thesis by simp
qed

lemma scaled_draw_nonneg:
  assumes "unit_draws g" "0 \<le> k" "0 \<le> x"
  shows "0 \<le> k * g n * x"
proof -
  have "0 \<le> g n" using assms(1) by (simp add: unit_draws_def)
  then show ?thesis using assms(2,3) by simp
qed

lemma o3_nonneg:
  assumes "unit_draws g" "0 \<le> x" "x \<le> 1.56"
  shows "0 \<le> 60 + (-20 + 60 * g n) * x"
proof -
  have g: "0 \<le> g n" using assms(1) by (simp add: unit_draws_def)
  have "(-20) * x \<le> (-20 + 60 * g n) * x"
    by (rule mult_right_mono) (use g assms(2) in simp_all)
  then show ?thesis using assms(3) by simp
qed

section \<open>The single-point generator\<close>

text \<open>
  C2, as the code has it. For every latitude and longitude, every timestamp the clock can
  convert and every run of the random generator, \<open>generate_fake_data\<close> returns an envelope
  with exactly one observation; its category is \<open>1 + intensity * 4\<close> cut to an integer by
  \<^verbatim>\<open>int\<close> (truncation, here the floor, since the value is positive) and then clamped to
  \<open>[1, 5]\<close>; every pollutant value other than CO is non-negative.
\<close>

theorem generated_observation:
  assumes "unit_draws g" and "valid_timestamp c t"
  shows "\<exists>hour obs a.
     local_hour c t = Inr hour
     \<and> bind_err (fst (generate_fake_data c lat lon (Some t) g)) observations = Inr [obs]
     \<and> observation_aqi obs = Inr (JInt a)
     \<and> a = min 5 (max 1 \<lfloor>1 + intensity lat lon hour (fst (random_uniform 0.3 0.8 g)) * 4\<rfloor>)
     \<and> 1 \<le> a \<and> a \<le> 5
     \<and> (\<forall>kv \<in> set (pollutants obs). fst kv \<noteq> ''co'' \<longrightarrow> (\<exists>r. snd kv = JReal r \<and> 0 \<le> r))"
proof -
  from assms(2) obtain hour where h: "local_hour c t = Inr hour" "0 \<le> hour" "hour \<le> 23"
    by (auto simp: valid_timestamp_def split: sum.splits)
  define x where "x = intensity lat lon hour (0.3 + 0.5 * g 0)"
  have b: "0.3 \<le> 0.3 + 0.5 * g 0" "0.3 + 0.5 * g 0 \<le> 0.8"
    using base_draw_bounds [OF assms(1)] by simp_all
  have x: "0.3 \<le> x" "x \<le> 1.56"
    using intensity_bounds [OF b h(2,3), of lat lon] by (simp_all add: x_def)
  have x0: "0 \<le> x" using x(1) by simp
  have gen: "fst (generate_fake_data c lat lon (Some t) g) = Inr (JDict
      [(''coord'', JList [JReal lat, JReal lon]),
       (''list'', JList [JDict
          [(''dt'', JInt t),
           (''main'', JDict [(''aqi'', JInt (aqi_of x))]),
           (''components'', JDict
              [(''co'', JReal (200 + (-50 + 350 * g 1) * x)),
               (''no'', JReal (10 * g 2 * x)),
               (''no2'', JReal (50 * g 3 * x)),
               (''o3'', JReal (60 + (-20 + 60 * g 4) * x)),
               (''so2'', JReal (20 * g 5 * x)),
               (''pm2_5'', JReal (75 * g 6 * x)),
               (''pm10'', JReal (150 * g 7 * x)),
               (''nh3'', JReal (10 * g 8 * x))])]])])"
    using generate_fake_data_Inr [of c "Some t" hour lat lon g] h(1) by (simp add: x_def)
  have aqi: "aqi_of x = min 5 (max 1 \<lfloor>1 + x * 4\<rfloor>)"
    using x0 by (simp add: aqi_of_def py_int_def)
  have ru: "intensity lat lon hour (fst (random_uniform 0.3 0.8 g)) = x"
    by (simp add: random_uniform_def x_def)
  have nn: "0 \<le> 10 * g 2 * x" "0 \<le> 50 * g 3 * x" "0 \<le> 20 * g 5 * x"
    "0 \<le> 75 * g 6 * x" "0 \<le> 150 * g 7 * x" "0 \<le> 10 * g 8 * x"
    using scaled_draw_nonneg [OF assms(1) _ x0] by simp_all
  have o3: "0 \<le> 60 + (-20 + 60 * g 4) * x"
    by (rule o3_nonneg [OF assms(1) x0 x(2)])
  show ?thesis
    apply (rule exI [of _ hour])
    apply (subst gen)
    apply (simp add: h(1) observations_def observation_aqi_def pollutants_def aqi)
    using nn o3 ru apply simp
    done
qed

text \<open>The theorem at New York, noon UTC, every draw 0.3.\<close>

theorem generated_observation_witness:
  "unit_draws (constant_rng (3/10)) \<and> valid_timestamp (utc_clock 0) 43200
   \<and> (\<exists>hour obs a.
     local_hour (utc_clock 0) 43200 = Inr hour
     \<and> bind_err (fst (generate_fake_data (utc_clock 0) 40.7128 (-74.0060) (Some 43200) (constant_rng (3/10)))) observations = Inr [obs]
     \<and> observation_aqi obs = Inr (JInt a)
     \<and> a = min 5 (max 1 \<lfloor>1 + intensity 40.7128 (-74.0060) hour (fst (random_uniform 0.3 0.8 (constant_rng (3/10)))) * 4\<rfloor>)
     \<and> 1 \<le> a \<and> a \<le> 5)"
proof -
  have u: "unit_draws (constant_rng (3/10))" by (simp add: unit_draws_def constant_rng_def)
  have v: "valid_timestamp (utc_clock 0) 43200" by (simp add: valid_timestamp_def utc_clock_def)
  show ?thesis
    using u v generated_observation [OF u v, of "40.7128" "-74.0060"] by blast
qed


text \<open>
  C2 as the specification states it fails: at New York, noon UTC, every draw 0.3, the
  intensity is 0.45, so \<open>1 + intensity * 4 = 2.8\<close>; the generator's category is 2,
  where \<open>clamp(round(2.8), 1, 5)\<close> is 3.
\<close>

theorem category_is_truncated_not_rounded:
  "unit_draws (constant_rng (3/10))
   \<and> valid_timestamp (utc_clock 0) 43200
   \<and> local_hour (utc_clock 0) 43200 = Inr 12
   \<and> intensity 40.7128 (-74.0060) 12 (fst (random_uniform 0.3 0.8 (constant_rng (3/10)))) = 0.45
   \<and> generated_category (utc_clock 0) 40.7128 (-74.0060) 43200 (constant_rng (3/10)) = Inr (JInt 2)
   \<and> spec_aqi_category 0.45 = 3"
  by (simp add: generated_category_def generate_fake_data_def random_uniform_def Let_def utc_clock_def unit_draws_def valid_timestamp_def intensity_def location_scaled_def time_factor_def aqi_of_def py_int_def constant_rng_def observations_def observation_aqi_def spec_aqi_category_def round_def)

section \<open>The bulk generator and the historical fallback\<close>

declare bulk_loop.simps [simp del]

lemma generate_fake_data_items:
  assumes "valid_timestamp c t"
  shows "\<exists>fake_data obs g'. generate_fake_data c lat lon (Some t) g = (Inr fake_data, g')
     \<and> bind_err (getitem_key fake_data ''list'') py_iter = Inr [obs]
     \<and> getitem_key obs ''dt'' = Inr (JInt t)"
proof -
  from assms obtain hour where h: "local_hour c t = Inr hour"
    by (auto simp: valid_timestamp_def split: sum.splits)
  have "fst (generate_fake_data c lat lon (Some t) g) = Inr (JDict
      [(''coord'', JList [JReal lat, JReal lon]),
       (''list'', JList [JDict
          [(''dt'', JInt t),
           (''main'', JDict [(''aqi'', JInt (aqi_of (intensity lat lon hour (0.3 + 0.5 * g 0))))]),
           (''components'', JDict
              [(''co'', JReal (200 + (-50 + 350 * g 1) * intensity lat lon hour (0.3 + 0.5 * g 0))),
               (''no'', JReal (10 * g 2 * intensity lat lon hour (0.3 + 0.5 * g 0))),
               (''no2'', JReal (50 * g 3 * intensity lat lon hour (0.3 + 0.5 * g 0))),
               (''o3'', JReal (60 + (-20 + 60 * g 4) * intensity lat lon hour (0.3 + 0.5 * g 0))),
               (''so2'', JReal (20 * g 5 * intensity lat lon hour (0.3 + 0.5 * g 0))),
               (''pm2_5'', JReal (75 * g 6 * intensity lat lon hour (0.3 + 0.5 * g 0))),
               (''pm10'', JReal (150 * g 7 * intensity lat lon hour (0.3 + 0.5 * g 0))),
               (''nh3'', JReal (10 * g 8 * intensity lat lon hour (0.3 + 0.5 * g 0)))])]])])"
    using generate_fake_data_Inr [of c "Some t" hour lat lon g] h by simp
  then show ?thesis
    by (cases "generate_fake_data c lat lon (Some t) g") auto
qed

lemma hourly_count:
  fixes a b :: int
  assumes "a \<le> b"
  shows "(if a + 3600 \<le> b then (b - (a + 3600)) div 3600 + 1 else 0) + 1 = (b - a) div 3600 + 1"
proof (cases "a + 3600 \<le> b")
  case True
  have "(b - a) div 3600 = (b - (a + 3600) + 1 * 3600) div 3600" by simp
  also have "\<dots> = (b - (a + 3600)) div 3600 + 1" by (simp only: div_mult_self1 [of 3600])
  finally show ?thesis using True by simp
next
  case False
  then have "(b - a) div 3600 = 0" using assms by simp
  then show ?thesis using False by simp
qed

lemma bulk_loop_hourly:
  assumes "\<forall>k. current_time + 3600 * int k \<le> end_time \<longrightarrow> valid_timestamp c (current_time + 3600 * int k)"
  shows "\<exists>new g'. bulk_loop c lat lon current_time end_time acc g = (Inr (acc @ new), g')
     \<and> int (length new) = (if current_time \<le> end_time then (end_time - current_time) div 3600 + 1 else 0)
     \<and> (\<forall>i<length new. getitem_key (new ! i) ''dt'' = Inr (JInt (current_time + 3600 * int i)))"
  using assms
proof (induction c lat lon current_time end_time acc g rule: bulk_loop.induct)
  case (1 c lat lon current_time end_time historical_list g)
  show ?case
  proof (cases "current_time \<le> end_time")
    case False
    then show ?thesis by (subst bulk_loop.simps) simp
  next
    case True
    have v: "valid_timestamp c current_time" using "1.prems" True by (metis add.right_neutral int_ops(1) mult_zero_right)
    from generate_fake_data_items [OF v, of lat lon g] obtain fake_data obs g1 where
      gen: "generate_fake_data c lat lon (Some current_time) g = (Inr fake_data, g1)"
      and items: "bind_err (getitem_key fake_data ''list'') py_iter = Inr [obs]"
      and dt: "getitem_key obs ''dt'' = Inr (JInt current_time)"
      by blast
    have next_valid: "\<forall>k. current_time + 3600 + 3600 * int k \<le> end_time \<longrightarrow>
        valid_timestamp c (current_time + 3600 + 3600 * int k)"
    proof (intro allI impI)
      fix k assume "current_time + 3600 + 3600 * int k \<le> end_time"
      then have "current_time + 3600 * int (Suc k) \<le> end_time" by simp
      then have "valid_timestamp c (current_time + 3600 * int (Suc k))" using "1.prems" by blast
      then show "valid_timestamp c (current_time + 3600 + 3600 * int k)" by (simp add: algebra_simps)
    qed
    from "1.IH" [OF True gen [symmetric] refl items next_valid]
    obtain new g' where
      loop: "bulk_loop c lat lon (current_time + 3600) end_time (historical_list @ [obs]) g1
             = (Inr ((historical_list @ [obs]) @ new), g')"
      and len: "int (length new) =
         (if current_time + 3600 \<le> end_time then (end_time - (current_time + 3600)) div 3600 + 1 else 0)"
      and dts: "\<forall>i<length new. getitem_key (new ! i) ''dt'' = Inr (JInt (current_time + 3600 + 3600 * int i))"
      by blast
    have eq: "bulk_loop c lat lon current_time end_time historical_list g
        = (Inr (historical_list @ (obs # new)), g')"
      by (subst bulk_loop.simps) (simp add: True gen items loop)
    have len': "int (length (obs # new)) = (end_time - current_time) div 3600 + 1"
      using len hourly_count [OF True] by simp
    have dts': "\<forall>i<length (obs # new). getitem_key ((obs # new) ! i) ''dt'' = Inr (JInt (current_time + 3600 * int i))"
    proof (intro allI impI)
      fix i assume i: "i < length (obs # new)"
      show "getitem_key ((obs # new) ! i) ''dt'' = Inr (JInt (current_time + 3600 * int i))"
      proof (cases i)
        case 0
        then show ?thesis using dt by simp
      next
        case (Suc j)
        then have "j < length new" using i by simp
        then show ?thesis using dts Suc by (simp add: algebra_simps)
      qed
    qed
    show ?thesis using eq len' dts' True by (intro exI [of _ "obs # new"] exI [of _ g']) simp
  qed
qed

text \<open>
  C3. For every latitude, longitude and range with \<open>start \<le> end\<close> whose hourly
  timestamps the clock can convert, \<open>generate_bulk_historical_data\<close> returns an envelope
  tagged \<open>Synthetic Fallback\<close> with \<open>\<lfloor>(end - start) / 3600\<rfloor> + 1\<close> observations, the
  \<open>i\<close>-th of them at \<open>start + 3600 * i\<close>; and when the upstream fetch fails,
  \<open>fetch_historical_aqi\<close> returns that envelope.
\<close>

theorem bulk_generator_hourly:
  assumes "start \<le> end"
    and "\<forall>k. start + 3600 * int k \<le> end \<longrightarrow> valid_timestamp (clk e) (start + 3600 * int k)"
  shows "\<exists>obs.
     fst (generate_bulk_historical_data (clk e) lat lon start end (rng_state w)) =
       Inr (JDict [(''coord'', JList [JReal lat, JReal lon]),
                   (''list'', JList obs),
                   (''source'', JStr ''Synthetic Fallback'')])
     \<and> length obs = nat ((end - start) div 3600) + 1
     \<and> (\<forall>i<length obs. getitem_key (obs ! i) ''dt'' = Inr (JInt (start + 3600 * int i)))
     \<and> (\<forall>err. upstream_fetch e (HistoryRequest lat lon start end) = Inl err \<longrightarrow>
           fst (fetch_historical_aqi e lat lon start end w) =
           fst (generate_bulk_historical_data (clk e) lat lon start end (rng_state w)))"
proof -
  from bulk_loop_hourly [OF assms(2), of lat lon "[]" "rng_state w"] obtain obs g' where
    loop: "bulk_loop (clk e) lat lon start end [] (rng_state w) = (Inr obs, g')"
    and len: "int (length obs) = (end - start) div 3600 + 1"
    and dts: "\<forall>i<length obs. getitem_key (obs ! i) ''dt'' = Inr (JInt (start + 3600 * int i))"
    using assms(1) by auto
  have l: "length obs = nat ((end - start) div 3600) + 1"
    using len assms(1) by linarith
  have f: "upstream_fetch e (HistoryRequest lat lon start end) = Inl err \<Longrightarrow>
           fst (fetch_historical_aqi e lat lon start end w) =
           fst (generate_bulk_historical_data (clk e) lat lon start end (rng_state w))" for err
    by (simp add: fetch_historical_aqi_def Let_def split: prod.splits)
  show ?thesis
    using l dts f by (intro exI [of _ obs]) (simp add: generate_bulk_historical_data_def loop)
qed

text \<open>The theorem on the two hours from 0 to 7200 at New York, provider unreachable.\<close>

theorem bulk_generator_hourly_witness:
  "(0::int) \<le> 7200
   \<and> (\<exists>obs.
     fst (generate_bulk_historical_data (utc_clock 0) 40.7128 (-74.0060) 0 7200 (constant_rng (1/2))) =
       Inr (JDict [(''coord'', JList [JReal 40.7128, JReal (-74.0060)]),
                   (''list'', JList obs),
                   (''source'', JStr ''Synthetic Fallback'')])
     \<and> length obs = 3
     \<and> map (\<lambda>item. getitem_key item ''dt'') obs = [Inr (JInt 0), Inr (JInt 3600), Inr (JInt 7200)]
     \<and> fst (fetch_historical_aqi (offline_env 0 None) 40.7128 (-74.0060) 0 7200
              \<lparr> rng_state = constant_rng (1/2), sent = [], db = Table [] \<rparr>) =
       fst (generate_bulk_historical_data (utc_clock 0) 40.7128 (-74.0060) 0 7200 (constant_rng (1/2))))"
proof -
  define e where "e = offline_env 0 None"
  define w where "w = \<lparr> rng_state = constant_rng (1/2), sent = [], db = Table [] \<rparr>"
  define lat :: real where "lat = 40.7128"
  define lon :: real where "lon = -74.0060"
  have c: "clk e = utc_clock 0" by (simp add: e_def offline_env_def)
  have r: "rng_state w = constant_rng (1/2)" by (simp add: w_def)
  have s: "(0::int) \<le> 7200" by simp
  have v: "\<forall>k. 0 + 3600 * int k \<le> 7200 \<longrightarrow> valid_timestamp (clk e) (0 + 3600 * int k)"
    by (simp add: c valid_timestamp_def utc_clock_def)
  have u: "upstream_fetch e (HistoryRequest lat lon 0 7200) = Inl RequestException"
    by (simp add: upstream_fetch_def e_def offline_env_def)
  from bulk_generator_hourly [OF s v, of lat lon w]
  obtain obs where
    g: "fst (generate_bulk_historical_data (clk e) lat lon 0 7200 (rng_state w)) =
       Inr (JDict [(''coord'', JList [JReal lat, JReal lon]),
                   (''list'', JList obs),
                   (''source'', JStr ''Synthetic Fallback'')])"
    and l: "length obs = nat ((7200 - 0) div 3600) + 1"
    and d: "\<forall>i<length obs. getitem_key (obs ! i) ''dt'' = Inr (JInt (0 + 3600 * int i))"
    and f: "\<forall>err. upstream_fetch e (HistoryRequest lat lon 0 7200) = Inl err \<longrightarrow>
           fst (fetch_historical_aqi e lat lon 0 7200 w) =
           fst (generate_bulk_historical_data (clk e) lat lon 0 7200 (rng_state w))"
    by blast
  have l3: "length obs = 3" using l by simp
  then obtain a b c' where obs: "obs = [a, b, c']"
    by (auto simp: numeral_3_eq_3 length_Suc_conv)
  have m: "map (\<lambda>item. getitem_key item ''dt'') obs = [Inr (JInt 0), Inr (JInt 3600), Inr (JInt 7200)]"
    using d [rule_format, of 0] d [rule_format, of 1] d [rule_format, of 2] by (simp add: obs)
  have f': "fst (fetch_historical_aqi e lat lon 0 7200 w) =
           fst (generate_bulk_historical_data (clk e) lat lon 0 7200 (rng_state w))"
    using f u by blast
  have "\<exists>obs.
     fst (generate_bulk_historical_data (clk e) lat lon 0 7200 (rng_state w)) =
       Inr (JDict [(''coord'', JList [JReal lat, JReal lon]),
                   (''list'', JList obs),
                   (''source'', JStr ''Synthetic Fallback'')])
     \<and> length obs = 3
     \<and> map (\<lambda>item. getitem_key item ''dt'') obs = [Inr (JInt 0), Inr (JInt 3600), Inr (JInt 7200)]
     \<and> fst (fetch_historical_aqi e lat lon 0 7200 w) =
       fst (generate_bulk_historical_data (clk e) lat lon 0 7200 (rng_state w))"
    by (rule exI [of _ obs]) (intro conjI g l3 m f')
  then show ?thesis
    unfolding c r unfolding e_def w_def lat_def lon_def by simp
qed

section \<open>The Store's insert and range query\<close>

lemma save_loop_committed:
  "committed (snd (save_loop sq data lat lon name items conn)) = committed conn"
  by (induction items arbitrary: conn)
     (auto simp: execute_insert_def split: sum.splits prod.splits)

lemma save_loop_batch_Inr:
  "batch_rows sq data lat lon name items = Inr new \<Longrightarrow>
   save_loop sq data lat lon name items conn = (Inr (), conn \<lparr> pending := pending conn @ new \<rparr>)"
proof (induction items arbitrary: conn new)
  case Nil
  then show ?case by (simp add: batch_rows_def)
next
  case (Cons item items)
  from Cons.prems obtain params r rest where
    p: "insert_params data lat lon name item = Inr params"
    and r: "stored_row sq params = Inr r"
    and rest: "batch_rows sq data lat lon name items = Inr rest"
    and new: "new = r # rest"
    by (auto simp: batch_rows_def bind_err_def split: sum.splits)
  show ?case
    using Cons.IH [OF rest, of "conn \<lparr> pending := pending conn @ [r] \<rparr>"]
    by (simp add: p r new execute_insert_def)
qed

lemma save_loop_batch_Inl:
  "batch_rows sq data lat lon name items = Inl err \<Longrightarrow>
   fst (save_loop sq data lat lon name items conn) = Inl err"
proof (induction items arbitrary: conn)
  case Nil
  then show ?case by (simp add: batch_rows_def)
next
  case (Cons item items)
  show ?case
  proof (cases "bind_err (insert_params data lat lon name item) (stored_row sq)")
    case (Inl e)
    then have "err = e" using Cons.prems by (simp add: batch_rows_def)
    then show ?thesis using Inl
      by (auto simp: bind_err_def execute_insert_def split: sum.splits)
  next
    case (Inr r)
    then have rest: "batch_rows sq data lat lon name items = Inl err"
      using Cons.prems by (auto simp: batch_rows_def split: sum.splits)
    from Inr obtain params where p: "insert_params data lat lon name item = Inr params"
      and r: "stored_row sq params = Inr r"
      by (auto simp: bind_err_def split: sum.splits)
    show ?thesis
      using Cons.IH [OF rest] by (simp add: p r execute_insert_def)
  qed
qed

lemma save_try_written:
  assumes "bind_err (dict_get data ''coord'' (JDict [])) read_coord = Inr (lat, lon)"
    and "bind_err (dict_get data ''list'' (JList [])) py_iter = Inr items"
    and "batch_rows sq data lat lon (effective_location_name data name) items = Inr new"
  shows "save_try sq data name (Table rows) = (Inr (), Table (rows @ new))"
  using assms save_loop_batch_Inr [OF assms(3), of "\<lparr> committed = rows, pending = [] \<rparr>"]
  by (simp add: save_try_def save_block_def Let_def commit_def close_db_def)

lemma save_try_error_keeps_store:
  assumes "fst (save_try sq data name st) = Inl err"
  shows "snd (save_try sq data name st) = st"
proof (cases st)
  case Faulty
  then show ?thesis by (simp add: save_try_def)
next
  case (Table rows)
  have c: "committed conn' = rows"
    if "save_loop sq data lat lon nm items \<lparr> committed = rows, pending = [] \<rparr> = (r, conn')"
    for lat lon nm items r conn'
    using save_loop_committed [of sq data lat lon nm items "\<lparr> committed = rows, pending = [] \<rparr>"] that
    by simp
  show ?thesis
    using assms unfolding Table
    by (auto simp: save_try_def save_block_def Let_def close_db_def dest: c split: sum.splits prod.splits)
qed

lemma save_try_success:
  assumes "fst (save_try sq data name st) = Inr u"
  shows "\<exists>rows lat lon items new. st = Table rows
     \<and> bind_err (dict_get data ''coord'' (JDict [])) read_coord = Inr (lat, lon)
     \<and> bind_err (dict_get data ''list'' (JList [])) py_iter = Inr items
     \<and> batch_rows sq data lat lon (effective_location_name data name) items = Inr new
     \<and> snd (save_try sq data name st) = Table (rows @ new)"
proof (cases st)
  case Faulty
  then show ?thesis using assms by (simp add: save_try_def)
next
  case (Table rows)
  from assms obtain lat lon where c: "bind_err (dict_get data ''coord'' (JDict [])) read_coord = Inr (lat, lon)"
    unfolding Table
    by (auto simp: save_try_def save_block_def Let_def split: sum.splits prod.splits)
  from assms obtain items where i: "bind_err (dict_get data ''list'' (JList [])) py_iter = Inr items"
    unfolding Table
    by (auto simp: save_try_def save_block_def Let_def c split: sum.splits prod.splits)
  have "\<exists>new. batch_rows sq data lat lon (effective_location_name data name) items = Inr new"
  proof (cases "batch_rows sq data lat lon (effective_location_name data name) items")
    case (Inl e)
    from save_loop_batch_Inl [OF Inl, of "\<lparr> committed = rows, pending = [] \<rparr>"]
    show ?thesis using assms unfolding Table
      by (auto simp: save_try_def save_block_def Let_def c i split: sum.splits prod.splits)
  next
    case (Inr new)
    then show ?thesis by blast
  qed
  then obtain new where n: "batch_rows sq data lat lon (effective_location_name data name) items = Inr new"
    by blast
  show ?thesis
    using save_try_written [OF c i n, of rows] c i n Table by simp
qed

text \<open>
  C8. Whatever the envelope, the name and the state of the store, \<open>save_to_database\<close>
  returns a store and \<open>get_historical_from_db\<close> returns a list of rows: every exception of
  their \<^verbatim>\<open>try\<close> blocks is caught. When the block of the insert raises, the store is left
  as it was (rows inserted before the error are never committed); otherwise rows are
  appended to the table. When the block of the query raises, the result is the empty list.
\<close>

theorem store_errors_stay_inside:
  "(case fst (save_try sq data name st) of
      Inl err \<Rightarrow> save_to_database sq data name st = st
    | Inr u \<Rightarrow> (\<exists>rows new. st = Table rows \<and> save_to_database sq data name st = Table (rows @ new)))
   \<and> (case query_try st lat lon start end of
         Inl err \<Rightarrow> get_historical_from_db st lat lon start end = []
       | Inr rs \<Rightarrow> get_historical_from_db st lat lon start end = rs)"
proof -
  have s: "case fst (save_try sq data name st) of
      Inl err \<Rightarrow> save_to_database sq data name st = st
    | Inr u \<Rightarrow> (\<exists>rows new. st = Table rows \<and> save_to_database sq data name st = Table (rows @ new))"
  proof (cases "fst (save_try sq data name st)")
    case (Inl err)
    then show ?thesis using save_try_error_keeps_store [OF Inl] by (simp add: save_to_database_def)
  next
    case (Inr u)
    then show ?thesis using save_try_success [OF Inr] by (auto simp: save_to_database_def)
  qed
  have q: "case query_try st lat lon start end of
         Inl err \<Rightarrow> get_historical_from_db st lat lon start end = []
       | Inr rs \<Rightarrow> get_historical_from_db st lat lon start end = rs"
    by (simp add: get_historical_from_db_def split: sum.splits)
  show ?thesis using s q by blast
qed

lemmas store_run_defs = save_try_def save_block_def Let_def read_coord_def effective_location_name_def
     insert_params_def component_def execute_insert_def stored_row_def aqi_data_columns_def
     integer_if_whole_def real_if_integer_def plain_sqlite_def sample_item_def sample_observation_def commit_def close_db_def
     save_to_database_def get_historical_from_db_def query_try_def in_window_def sql_between_def
     column_def timestamp_key_def


text \<open>
  The theorem on a batch whose second item has no \<open>dt\<close>: the first row is not kept; and
  on a store out of order.
\<close>

theorem store_errors_stay_inside_witness:
  "fst (save_try plain_sqlite
          (JDict [(''coord'', coord_pair 40.7128 (-74.0060)),
                  (''list'', JList [sample_item 100, JDict []])])
          JNull (Table [observation_row 51.5074 (-0.1278) None ''unknown'' (sample_observation 150)]))
     = Inl KeyError
   \<and> save_to_database plain_sqlite
          (JDict [(''coord'', coord_pair 40.7128 (-74.0060)),
                  (''list'', JList [sample_item 100, JDict []])])
          JNull (Table [observation_row 51.5074 (-0.1278) None ''unknown'' (sample_observation 150)])
     = Table [observation_row 51.5074 (-0.1278) None ''unknown'' (sample_observation 150)]
   \<and> query_try Faulty 40.7128 (-74.0060) 100 200 = Inl OperationalError
   \<and> get_historical_from_db Faulty 40.7128 (-74.0060) 100 200 = []"
proof -
  define bad where "bad = JDict [(''coord'', coord_pair 40.7128 (-74.0060)),
                  (''list'', JList [sample_item 100, JDict []])]"
  define st where "st = Table [observation_row 51.5074 (-0.1278) None ''unknown'' (sample_observation 150)]"
  have f: "fst (save_try plain_sqlite bad JNull st) = Inl KeyError"
    by (simp add: bad_def st_def store_run_defs coord_pair_def)
  have q: "query_try Faulty 40.7128 (-74.0060) 100 200 = Inl OperationalError"
    by (simp add: query_try_def)
  have s: "save_to_database plain_sqlite bad JNull st = st"
    using store_errors_stay_inside [of plain_sqlite bad JNull st] f by simp
  have e: "get_historical_from_db Faulty 40.7128 (-74.0060) 100 200 = []"
    using store_errors_stay_inside [of plain_sqlite bad JNull Faulty "40.7128" "-74.0060" 100 200] q
    by simp
  show ?thesis using f s q e unfolding bad_def st_def by blast
qed

lemma component_observation:
  "component (json_of_observation ob) k =
     Inr (case map_of (components ob) k of None \<Rightarrow> JNull | Some v \<Rightarrow> JReal v)"
proof -
  have "map_of (map (\<lambda>kv. (fst kv, JReal (snd kv))) kvs) k = map_option JReal (map_of kvs k)"
    for kvs :: "(string \<times> real) list"
    by (induction kvs) auto
  then show ?thesis
    by (simp add: component_def json_of_observation_def split: option.splits)
qed

lemma bind_pollutant:
  "bind_param (case map_of (components ob) k of None \<Rightarrow> JNull | Some v \<Rightarrow> JReal v) =
     Inr (pollutant_value ob k)"
  by (simp add: pollutant_value_def split: option.splits)

lemma affinity_pollutant:
  "apply_affinity sq REAL (pollutant_value ob k) = pollutant_value ob k"
  by (simp add: pollutant_value_def real_if_integer_def split: option.splits)

lemma pollutant_value_cases:
  "pollutant_value ob k = SNull \<or> (\<exists>v. pollutant_value ob k = SReal v)"
  by (simp add: pollutant_value_def split: option.splits)

lemma stored_row_observation:
  assumes "- (2 ^ 63) \<le> dt ob" "dt ob < 2 ^ 63" "- (2 ^ 63) \<le> aqi ob" "aqi ob < 2 ^ 63"
    and "dict_get data ''source'' (JStr ''unknown'') = Inr (JStr src)"
  shows "bind_err (insert_params data (JReal lat) (JReal lon) (json_of_str name) (json_of_observation ob))
           (stored_row sq) = Inr (observation_row lat lon name src ob)"
proof -
  have p: "insert_params data (JReal lat) (JReal lon) (json_of_str name) (json_of_observation ob) =
     Inr [JInt (dt ob), JReal lat, JReal lon, JInt (aqi ob),
          (case map_of (components ob) ''pm2_5'' of None \<Rightarrow> JNull | Some v \<Rightarrow> JReal v),
          (case map_of (components ob) ''pm10'' of None \<Rightarrow> JNull | Some v \<Rightarrow> JReal v),
          (case map_of (components ob) ''co'' of None \<Rightarrow> JNull | Some v \<Rightarrow> JReal v),
          (case map_of (components ob) ''no'' of None \<Rightarrow> JNull | Some v \<Rightarrow> JReal v),
          (case map_of (components ob) ''no2'' of None \<Rightarrow> JNull | Some v \<Rightarrow> JReal v),
          (case map_of (components ob) ''o3'' of None \<Rightarrow> JNull | Some v \<Rightarrow> JReal v),
          (case map_of (components ob) ''so2'' of None \<Rightarrow> JNull | Some v \<Rightarrow> JReal v),
          (case map_of (components ob) ''nh3'' of None \<Rightarrow> JNull | Some v \<Rightarrow> JReal v),
          json_of_str name, JStr src]"
    unfolding insert_params_def component_observation assms(5)
    by (simp add: json_of_observation_def)
  have n: "bind_param (json_of_str name) = Inr (case name of None \<Rightarrow> SNull | Some n \<Rightarrow> SText n)"
    by (simp add: json_of_str_def split: option.splits)
  have a: "apply_affinity sq TEXT (case name of None \<Rightarrow> SNull | Some n \<Rightarrow> SText n) =
      (case name of None \<Rightarrow> SNull | Some n \<Rightarrow> SText n)"
    by (simp split: option.splits)
  show ?thesis
    unfolding p
    using assms(1-4)
    by (simp add: stored_row_def aqi_data_columns_def bind_pollutant n a affinity_pollutant
        observation_row_def integer_if_whole_def real_if_integer_def)
qed

lemma batch_rows_observations:
  assumes "\<forall>ob \<in> set obs. - (2 ^ 63) \<le> dt ob \<and> dt ob < 2 ^ 63 \<and> - (2 ^ 63) \<le> aqi ob \<and> aqi ob < 2 ^ 63"
    and "dict_get data ''source'' (JStr ''unknown'') = Inr (JStr src)"
  shows "batch_rows sq data (JReal lat) (JReal lon) (json_of_str name) (map json_of_observation obs)
     = Inr (map (observation_row lat lon name src) obs)"
  using assms(1)
proof (induction obs)
  case Nil
  then show ?case by (simp add: batch_rows_def)
next
  case (Cons ob obs)
  have r: "bind_err (insert_params data (JReal lat) (JReal lon) (json_of_str name) (json_of_observation ob))
           (stored_row sq) = Inr (observation_row lat lon name src ob)"
    using Cons.prems by (intro stored_row_observation assms(2)) simp_all
  have rest: "batch_rows sq data (JReal lat) (JReal lon) (json_of_str name) (map json_of_observation obs)
     = Inr (map (observation_row lat lon name src) obs)"
    using Cons by simp
  show ?case using r rest by (simp add: batch_rows_def)
qed

lemma read_coord_forms:
  "read_coord (coord_pair lat lon) = Inr (JReal lat, JReal lon)"
  "read_coord (coord_object lat lon) = Inr (JReal lat, JReal lon)"
  by (simp_all add: read_coord_def coord_pair_def coord_object_def)

lemma save_reading_envelope:
  assumes "\<forall>ob \<in> set obs. - (2 ^ 63) \<le> dt ob \<and> dt ob < 2 ^ 63 \<and> - (2 ^ 63) \<le> aqi ob \<and> aqi ob < 2 ^ 63"
    and "coord = coord_pair lat lon \<or> coord = coord_object lat lon"
  shows "save_try sq (reading_envelope coord obs src) (json_of_str name) (Table rows) =
    (Inr (), Table (rows @ map (observation_row lat lon name src) obs))"
proof -
  let ?data = "reading_envelope coord obs src"
  have c: "bind_err (dict_get ?data ''coord'' (JDict [])) read_coord = Inr (JReal lat, JReal lon)"
    using assms(2) by (auto simp: reading_envelope_def read_coord_forms)
  have i: "bind_err (dict_get ?data ''list'' (JList [])) py_iter = Inr (map json_of_observation obs)"
    by (simp add: reading_envelope_def)
  have s: "dict_get ?data ''source'' (JStr ''unknown'') = Inr (JStr src)"
    by (simp add: reading_envelope_def)
  have n: "effective_location_name ?data (json_of_str name) = json_of_str name"
    by (simp add: reading_envelope_def effective_location_name_def)
  have b: "batch_rows sq ?data (JReal lat) (JReal lon) (effective_location_name ?data (json_of_str name))
      (map json_of_observation obs) = Inr (map (observation_row lat lon name src) obs)"
    unfolding n by (rule batch_rows_observations [OF assms(1) s])
  show ?thesis by (rule save_try_written [OF c i b])
qed

lemma query_table:
  "get_historical_from_db (Table rows) lat lon start end =
     sort_key timestamp_key (filter (in_window lat lon start end) rows)"
  by (simp add: get_historical_from_db_def query_try_def)

lemma observation_row_in_window:
  assumes "start \<le> dt ob" "dt ob \<le> end"
  shows "in_window lat lon start end (observation_row lat lon name src ob)"
  using assms by (simp add: in_window_def observation_row_def column_def sql_between_def)

lemma observation_row_readings:
  "row_readings (observation_row lat lon name src ob) = observation_readings ob"
  by (simp add: row_readings_def observation_readings_def observation_row_def column_def
      pollutant_names_def)

lemma save_then_query:
  assumes "\<forall>ob \<in> set obs. valid_observation ob \<and> start \<le> dt ob \<and> dt ob \<le> end"
    and "coord = coord_pair lat lon \<or> coord = coord_object lat lon"
  shows "mset (get_historical_from_db
            (save_to_database sq (reading_envelope coord obs src) (json_of_str name) (Table rows))
            lat lon start end) =
         mset (get_historical_from_db (Table rows) lat lon start end)
         + mset (map (observation_row lat lon name src) obs)"
proof -
  have r: "\<forall>ob \<in> set obs. - (2 ^ 63) \<le> dt ob \<and> dt ob < 2 ^ 63 \<and> - (2 ^ 63) \<le> aqi ob \<and> aqi ob < 2 ^ 63"
    using assms(1) by (auto simp: valid_observation_def)
  have s: "save_to_database sq (reading_envelope coord obs src) (json_of_str name) (Table rows) =
      Table (rows @ map (observation_row lat lon name src) obs)"
    using save_reading_envelope [OF r assms(2)] by (simp add: save_to_database_def)
  have f: "filter (in_window lat lon start end) (map (observation_row lat lon name src) obs) =
      map (observation_row lat lon name src) obs"
    using assms(1) by (intro filter_True) (auto intro: observation_row_in_window)
  show ?thesis by (simp add: s query_table f)
qed

text \<open>
  C6. An envelope of \<open>N\<close> valid observations, its coordinates given as a pair or as an
  object, is inserted into a table that holds no row of the queried window; the query at
  the envelope's coordinates over a time range that covers the observations then
  returns \<open>N\<close> rows, ordered by timestamp, whose timestamps and pollutant columns are
  those of the observations, a missing pollutant being NULL.
\<close>

theorem store_round_trip:
  assumes "\<forall>ob \<in> set obs. valid_observation ob \<and> start \<le> dt ob \<and> dt ob \<le> end"
    and "coord = coord_pair lat lon \<or> coord = coord_object lat lon"
    and "get_historical_from_db (Table rows) lat lon start end = []"
  shows "\<exists>result.
     get_historical_from_db
       (save_to_database sq (reading_envelope coord obs src) (json_of_str name) (Table rows))
       lat lon start end = result
     \<and> length result = length obs
     \<and> mset (map row_readings result) = mset (map observation_readings obs)
     \<and> sorted (map timestamp_key result)"
proof -
  define result where "result = get_historical_from_db
       (save_to_database sq (reading_envelope coord obs src) (json_of_str name) (Table rows))
       lat lon start end"
  have m: "mset result = mset (map (observation_row lat lon name src) obs)"
    using save_then_query [OF assms(1,2), of sq src name rows] assms(3) by (simp add: result_def)
  have l: "length result = length obs"
    using m by (metis length_map size_mset)
  have "mset (map row_readings result) = image_mset row_readings (mset result)" by simp
  also have "\<dots> = mset (map (\<lambda>ob. row_readings (observation_row lat lon name src ob)) obs)"
    unfolding m by (simp add: multiset.map_comp comp_def)
  also have "\<dots> = mset (map observation_readings obs)"
    by (simp add: observation_row_readings)
  finally have v: "mset (map row_readings result) = mset (map observation_readings obs)" .
  have r: "\<forall>ob \<in> set obs. - (2 ^ 63) \<le> dt ob \<and> dt ob < 2 ^ 63 \<and> - (2 ^ 63) \<le> aqi ob \<and> aqi ob < 2 ^ 63"
    using assms(1) by (auto simp: valid_observation_def)
  have "save_to_database sq (reading_envelope coord obs src) (json_of_str name) (Table rows) =
      Table (rows @ map (observation_row lat lon name src) obs)"
    using save_reading_envelope [OF r assms(2)] by (simp add: save_to_database_def)
  then have o: "sorted (map timestamp_key result)"
    by (simp add: result_def query_table)
  show ?thesis using l v o by (simp add: result_def)
qed

lemma sequence_err_Inr:
  "sequence_err ms = Inr xs \<Longrightarrow> list_all2 (\<lambda>m x. m = Inr x) ms xs"
  by (induction ms arbitrary: xs) (auto split: sum.splits)

lemma column_names_distinct: "distinct (map fst aqi_data_columns)"
  by (simp add: aqi_data_columns_def)

lemma length_aqi_data_columns: "length aqi_data_columns = 14"
  by (simp add: aqi_data_columns_def)

lemma stored_row_column:
  assumes "stored_row sq params = Inr r" and "i < 14"
  shows "\<exists>b. bind_param (params ! i) = Inr b
     \<and> column r (fst (aqi_data_columns ! i)) = apply_affinity sq (fst (snd (aqi_data_columns ! i))) b
     \<and> \<not> (snd (snd (aqi_data_columns ! i)) \<and> b = SNull)"
proof -
  from assms(1) have len: "length params = 14"
    by (auto simp: stored_row_def length_aqi_data_columns split: if_splits)
  from assms(1) len obtain vs where vs: "sequence_err (map bind_param params) = Inr vs"
    and nn: "\<not> (\<exists>(cl, v) \<in> set (zip aqi_data_columns vs). snd (snd cl) \<and> v = SNull)"
    and r: "r = map (\<lambda>(cl, v). (fst cl, apply_affinity sq (fst (snd cl)) v)) (zip aqi_data_columns vs)"
    by (auto simp: stored_row_def length_aqi_data_columns split: if_splits sum.splits)
  have la: "list_all2 (\<lambda>m x. m = Inr x) (map bind_param params) vs"
    by (rule sequence_err_Inr [OF vs])
  then have lv: "length vs = 14" using len by (auto dest: list_all2_lengthD)
  have b: "bind_param (params ! i) = Inr (vs ! i)"
    using list_all2_nthD [OF la, of i] assms(2) len by simp
  have z: "(aqi_data_columns ! i, vs ! i) \<in> set (zip aqi_data_columns vs)"
    using assms(2) lv length_aqi_data_columns by (metis length_zip min.idem nth_mem nth_zip)
  have n: "\<not> (snd (snd (aqi_data_columns ! i)) \<and> vs ! i = SNull)"
    using nn z by auto
  have fr: "map fst r = map fst aqi_data_columns"
    unfolding r using lv length_aqi_data_columns
    by (intro nth_equalityI) (simp_all add: case_prod_beta)
  have ri: "r ! i = (fst (aqi_data_columns ! i), apply_affinity sq (fst (snd (aqi_data_columns ! i))) (vs ! i))"
    unfolding r using assms(2) lv length_aqi_data_columns by simp
  have lr: "length r = 14" unfolding r using lv length_aqi_data_columns by simp
  have "r ! i \<in> set r" using lr assms(2) by simp
  then have "map_of r (fst (aqi_data_columns ! i)) =
      Some (apply_affinity sq (fst (snd (aqi_data_columns ! i))) (vs ! i))"
    using ri column_names_distinct fr by (metis map_of_is_SomeI)
  then have c: "column r (fst (aqi_data_columns ! i)) = apply_affinity sq (fst (snd (aqi_data_columns ! i))) (vs ! i)"
    by (simp add: column_def)
  show ?thesis using b c n by blast
qed

lemma insert_params_nth:
  assumes "insert_params data lat lon name item = Inr params"
  shows "params ! 1 = lat \<and> params ! 2 = lon \<and> params ! 12 = name
     \<and> dict_get data ''source'' (JStr ''unknown'') = Inr (params ! 13)
     \<and> getitem_key item ''dt'' = Inr (params ! 0)"
proof -
  have la: "list_all2 (\<lambda>m x. m = Inr x)
       [getitem_key item ''dt'', Inr lat, Inr lon,
        bind_err (getitem_key item ''main'') (\<lambda>m. getitem_key m ''aqi''),
        component item ''pm2_5'', component item ''pm10'', component item ''co'',
        component item ''no'', component item ''no2'', component item ''o3'',
        component item ''so2'', component item ''nh3'', Inr name,
        dict_get data ''source'' (JStr ''unknown'')] params"
    using sequence_err_Inr assms unfolding insert_params_def by blast
  have "params ! 1 = lat" using list_all2_nthD [OF la, of 1] by simp
  moreover have "params ! 2 = lon" using list_all2_nthD [OF la, of 2] by simp
  moreover have "params ! 12 = name" using list_all2_nthD [OF la, of 12] by simp
  moreover have "dict_get data ''source'' (JStr ''unknown'') = Inr (params ! 13)"
    using list_all2_nthD [OF la, of 13] by simp
  moreover have "getitem_key item ''dt'' = Inr (params ! 0)"
    using list_all2_nthD [OF la, of 0] by simp
  ultimately show ?thesis by blast
qed

lemma batch_rows_member:
  assumes "batch_rows sq data lat lon name items = Inr new" and "r \<in> set new"
  shows "\<exists>item params. item \<in> set items \<and> insert_params data lat lon name item = Inr params
     \<and> stored_row sq params = Inr r"
proof -
  have la: "list_all2 (\<lambda>m x. m = Inr x)
      (map (\<lambda>item. bind_err (insert_params data lat lon name item) (stored_row sq)) items) new"
    using sequence_err_Inr assms(1) unfolding batch_rows_def by blast
  from assms(2) obtain i where i: "i < length new" "new ! i = r" by (auto simp: in_set_conv_nth)
  have li: "length items = length new" using la by (auto dest: list_all2_lengthD)
  have "bind_err (insert_params data lat lon name (items ! i)) (stored_row sq) = Inr r"
    using list_all2_nthD [OF la, of i] i li by simp
  then obtain params where "insert_params data lat lon name (items ! i) = Inr params"
    "stored_row sq params = Inr r"
    by (auto simp: bind_err_def split: sum.splits)
  moreover have "items ! i \<in> set items" using i li by simp
  ultimately show ?thesis by blast
qed

lemma written_row_text_columns:
  assumes "save_to_database sq data name (Table rows) = Table (rows @ new)" and "r \<in> set new"
  shows "\<exists>bn bs src. bind_param (effective_location_name data name) = Inr bn
     \<and> column r ''location_name'' = apply_affinity sq TEXT bn
     \<and> dict_get data ''source'' (JStr ''unknown'') = Inr src
     \<and> bind_param src = Inr bs \<and> bs \<noteq> SNull
     \<and> column r ''source'' = apply_affinity sq TEXT bs"
proof -
  have ne: "new \<noteq> []" using assms(2) by auto
  have ok: "\<exists>u. fst (save_try sq data name (Table rows)) = Inr u"
  proof (cases "fst (save_try sq data name (Table rows))")
    case (Inl err)
    from save_try_error_keeps_store [OF Inl] assms(1) ne show ?thesis
      by (simp add: save_to_database_def)
  next
    case (Inr u)
    then show ?thesis by blast
  qed
  then obtain u where u: "fst (save_try sq data name (Table rows)) = Inr u" by blast
  from save_try_success [OF u] assms(1) obtain lat lon items where
    b: "batch_rows sq data lat lon (effective_location_name data name) items = Inr new"
    by (auto simp: save_to_database_def)
  from batch_rows_member [OF b assms(2)] obtain item params where
    p: "insert_params data lat lon (effective_location_name data name) item = Inr params"
    and s: "stored_row sq params = Inr r"
    by blast
  from insert_params_nth [OF p] have
    n12: "params ! 12 = effective_location_name data name"
    and n13: "dict_get data ''source'' (JStr ''unknown'') = Inr (params ! 13)"
    by simp_all
  from stored_row_column [OF s, of 12] obtain bn where
    bn: "bind_param (params ! 12) = Inr bn" "column r ''location_name'' = apply_affinity sq TEXT bn"
    by (auto simp: aqi_data_columns_def)
  from stored_row_column [OF s, of 13] obtain bs where
    bs: "bind_param (params ! 13) = Inr bs" "column r ''source'' = apply_affinity sq TEXT bs" "bs \<noteq> SNull"
    by (auto simp: aqi_data_columns_def)
  show ?thesis using bn bs n12 n13 by auto
qed

text \<open>
  The theorem on two observations inserted in descending order into an empty table.
\<close>

theorem store_round_trip_witness:
  "valid_observation (sample_observation 200) \<and> valid_observation (sample_observation 100)
   \<and> get_historical_from_db (Table []) 40.7128 (-74.0060) 100 200 = []
   \<and> (\<exists>result.
     get_historical_from_db
       (save_to_database plain_sqlite
          (reading_envelope (coord_pair 40.7128 (-74.0060))
             [sample_observation 200, sample_observation 100] ''Synthetic Fallback'')
          (json_of_str None) (Table []))
       40.7128 (-74.0060) 100 200 = result
     \<and> length result = 2
     \<and> mset (map row_readings result) =
         {# (SInt 100, [SReal 7, SNull, SReal 201.5, SNull, SNull, SNull, SNull, SNull]),
            (SInt 200, [SReal 7, SNull, SReal 201.5, SNull, SNull, SNull, SNull, SNull]) #}
     \<and> sorted (map timestamp_key result))"
proof -
  define obs where "obs = [sample_observation 200, sample_observation 100]"
  have v: "valid_observation (sample_observation 200)" "valid_observation (sample_observation 100)"
    by (simp_all add: valid_observation_def sample_observation_def)
  have h1: "\<forall>ob \<in> set obs. valid_observation ob \<and> 100 \<le> dt ob \<and> dt ob \<le> 200"
    using v by (simp add: obs_def sample_observation_def)
  have h2: "coord_pair 40.7128 (-74.0060) = coord_pair 40.7128 (-74.0060)
      \<or> coord_pair 40.7128 (-74.0060) = coord_object 40.7128 (-74.0060)"
    by simp
  have h3: "get_historical_from_db (Table []) 40.7128 (-74.0060) 100 200 = []"
    by (simp add: query_table)
  have r: "mset (map observation_readings obs) =
         {# (SInt 100, [SReal 7, SNull, SReal 201.5, SNull, SNull, SNull, SNull, SNull]),
            (SInt 200, [SReal 7, SNull, SReal 201.5, SNull, SNull, SNull, SNull, SNull]) #}"
    by (simp add: obs_def observation_readings_def pollutant_names_def pollutant_value_def
        sample_observation_def)
  have l: "length obs = 2" by (simp add: obs_def)
  show ?thesis
    using store_round_trip [OF h1 h2 h3, of plain_sqlite "''Synthetic Fallback''" None] v h3
    unfolding r l unfolding obs_def by blast
qed

text \<open>
  C10. Every row an insert writes has in its \<open>source\<close> column what the envelope's
  top-level \<open>source\<close> field binds to (for a string, the string itself) when the field is
  present, and otherwise the text \<open>unknown\<close>, which is none of the three source tags of
  the data model.
\<close>

theorem written_source_column:
  assumes "save_to_database sq data name (Table rows) = Table (rows @ new)" and "r \<in> set new"
  shows "\<exists>kvs. data = JDict kvs
     \<and> (case map_of kvs ''source'' of
           None \<Rightarrow> column r ''source'' = SText ''unknown''
         | Some v \<Rightarrow> (\<exists>b. bind_param v = Inr b \<and> column r ''source'' = apply_affinity sq TEXT b)
                     \<and> (\<forall>s. v = JStr s \<longrightarrow> column r ''source'' = SText s))
     \<and> ''unknown'' \<notin> {''OpenWeatherMap API'', ''Synthetic Fallback'', ''Local Database''}"
proof -
  from written_row_text_columns [OF assms] obtain bs src where
    d: "dict_get data ''source'' (JStr ''unknown'') = Inr src"
    and b: "bind_param src = Inr bs"
    and c: "column r ''source'' = apply_affinity sq TEXT bs"
    by blast
  from d obtain kvs where k: "data = JDict kvs" by (cases data) simp_all
  have src: "src = (case map_of kvs ''source'' of None \<Rightarrow> JStr ''unknown'' | Some v \<Rightarrow> v)"
    using d k by simp
  show ?thesis
  proof (cases "map_of kvs ''source''")
    case None
    then show ?thesis using k src b c by auto
  next
    case (Some v)
    then show ?thesis using k src b c by auto
  qed
qed

text \<open>
  The theorem on an envelope without a source and on one tagged by the provider.
\<close>

theorem written_source_column_witness:
  "save_to_database plain_sqlite
      (JDict [(''coord'', coord_pair 40.7128 (-74.0060)), (''list'', JList [sample_item 100])])
      JNull (Table [])
    = Table ([] @ [observation_row 40.7128 (-74.0060) None ''unknown'' (sample_observation 100)])
   \<and> column (observation_row 40.7128 (-74.0060) None ''unknown'' (sample_observation 100)) ''source''
       = SText ''unknown''
   \<and> save_to_database plain_sqlite
      (JDict [(''coord'', coord_pair 40.7128 (-74.0060)), (''list'', JList [sample_item 100]),
              (''source'', JStr ''OpenWeatherMap API'')])
      JNull (Table [])
    = Table ([] @ [observation_row 40.7128 (-74.0060) None ''OpenWeatherMap API'' (sample_observation 100)])
   \<and> column (observation_row 40.7128 (-74.0060) None ''OpenWeatherMap API'' (sample_observation 100)) ''source''
       = SText ''OpenWeatherMap API''"
proof -
  let ?r1 = "observation_row 40.7128 (-74.0060) None ''unknown'' (sample_observation 100)"
  let ?r2 = "observation_row 40.7128 (-74.0060) None ''OpenWeatherMap API'' (sample_observation 100)"
  let ?d1 = "JDict [(''coord'', coord_pair 40.7128 (-74.0060)), (''list'', JList [sample_item 100])]"
  let ?d2 = "JDict [(''coord'', coord_pair 40.7128 (-74.0060)), (''list'', JList [sample_item 100]),
              (''source'', JStr ''OpenWeatherMap API'')]"
  have s1: "save_to_database plain_sqlite ?d1 JNull (Table []) = Table ([] @ [?r1])"
    by (simp add: store_run_defs coord_pair_def observation_row_def pollutant_value_def)
  have s2: "save_to_database plain_sqlite ?d2 JNull (Table []) = Table ([] @ [?r2])"
    by (simp add: store_run_defs coord_pair_def observation_row_def pollutant_value_def)
  have c1: "column ?r1 ''source'' = SText ''unknown''"
    using written_source_column [OF s1, of ?r1] by simp
  have c2: "column ?r2 ''source'' = SText ''OpenWeatherMap API''"
    using written_source_column [OF s2, of ?r2] by simp
  show ?thesis using s1 s2 c1 c2 by blast
qed

lemma save_ignores_parameter_when_embedded:
  assumes "map_of kvs ''location_name'' = Some v"
  shows "save_try sq (JDict kvs) name1 st = save_try sq (JDict kvs) name2 st"
proof -
  have "save_block sq (JDict kvs) name1 conn = save_block sq (JDict kvs) name2 conn" for conn
    using assms by (simp add: save_block_def effective_location_name_def)
  then show ?thesis by (simp add: save_try_def split: sum.splits)
qed

lemma save_empty_list:
  assumes "dict_get data ''list'' (JList []) = Inr (JList [])"
  shows "save_to_database sq data name st = st"
proof (cases "fst (save_try sq data name st)")
  case (Inl err)
  then show ?thesis using save_try_error_keeps_store [OF Inl] by (simp add: save_to_database_def)
next
  case (Inr u)
  from save_try_success [OF Inr] obtain rows lat lon items new where
    st: "st = Table rows"
    and i: "bind_err (dict_get data ''list'' (JList [])) py_iter = Inr items"
    and b: "batch_rows sq data lat lon (effective_location_name data name) items = Inr new"
    and s: "snd (save_try sq data name st) = Table (rows @ new)"
    by blast
  have "items = []" using i assms by simp
  then have "new = []" using b by (simp add: batch_rows_def)
  then show ?thesis using s st by (simp add: save_to_database_def)
qed

text \<open>
  C7. An envelope of valid observations is stored in the same rows, at its latitude and
  longitude, whether its coordinates come as an object or as a pair. When the envelope's
  top-level object has a \<open>location_name\<close>, the parameter does not matter, and every row
  written holds the embedded name. When the envelope's list is empty (or absent), the
  store is left as it was, and the insert does not raise if the coordinates can be read.
\<close>

theorem insert_coordinates_name_and_empty_list:
  assumes "\<forall>ob \<in> set obs. valid_observation ob"
  shows "save_to_database sq (reading_envelope (coord_object lat lon) obs src) (json_of_str name) (Table rows)
           = Table (rows @ map (observation_row lat lon name src) obs)
     \<and> save_to_database sq (reading_envelope (coord_pair lat lon) obs src) (json_of_str name) (Table rows)
           = Table (rows @ map (observation_row lat lon name src) obs)
     \<and> (map_of kvs ''location_name'' = Some v \<longrightarrow>
           save_to_database sq (JDict kvs) name1 st = save_to_database sq (JDict kvs) name2 st
           \<and> (save_to_database sq (JDict kvs) name1 (Table rows') = Table (rows' @ new) \<longrightarrow>
                (\<forall>r \<in> set new. \<exists>b. bind_param v = Inr b
                    \<and> column r ''location_name'' = apply_affinity sq TEXT b)))
     \<and> (dict_get data ''list'' (JList []) = Inr (JList []) \<longrightarrow>
           save_to_database sq data name1 st = st
           \<and> (bind_err (dict_get data ''coord'' (JDict [])) read_coord = Inr (la, lo) \<longrightarrow>
                save_try sq data name1 (Table rows') = (Inr (), Table rows')))"
proof -
  have r: "\<forall>ob \<in> set obs. - (2 ^ 63) \<le> dt ob \<and> dt ob < 2 ^ 63 \<and> - (2 ^ 63) \<le> aqi ob \<and> aqi ob < 2 ^ 63"
    using assms by (auto simp: valid_observation_def)
  have a1: "save_to_database sq (reading_envelope (coord_object lat lon) obs src) (json_of_str name) (Table rows)
           = Table (rows @ map (observation_row lat lon name src) obs)"
    using save_reading_envelope [OF r, of "coord_object lat lon" lat lon sq src name rows]
    by (simp add: save_to_database_def)
  have a2: "save_to_database sq (reading_envelope (coord_pair lat lon) obs src) (json_of_str name) (Table rows)
           = Table (rows @ map (observation_row lat lon name src) obs)"
    using save_reading_envelope [OF r, of "coord_pair lat lon" lat lon sq src name rows]
    by (simp add: save_to_database_def)
  have b1: "save_to_database sq (JDict kvs) name1 st = save_to_database sq (JDict kvs) name2 st"
    if "map_of kvs ''location_name'' = Some v"
    using save_ignores_parameter_when_embedded [OF that, of sq name1 st name2]
    by (simp add: save_to_database_def)
  have b2: "\<forall>r \<in> set new. \<exists>b. bind_param v = Inr b \<and> column r ''location_name'' = apply_affinity sq TEXT b"
    if m: "map_of kvs ''location_name'' = Some v"
      and s: "save_to_database sq (JDict kvs) name1 (Table rows') = Table (rows' @ new)"
  proof
    fix r assume "r \<in> set new"
    from written_row_text_columns [OF s this] obtain bn where
      "bind_param (effective_location_name (JDict kvs) name1) = Inr bn"
      "column r ''location_name'' = apply_affinity sq TEXT bn"
      by blast
    then show "\<exists>b. bind_param v = Inr b \<and> column r ''location_name'' = apply_affinity sq TEXT b"
      using m by (simp add: effective_location_name_def)
  qed
  have c1: "save_to_database sq data name1 st = st"
    if "dict_get data ''list'' (JList []) = Inr (JList [])"
    by (rule save_empty_list [OF that])
  have c2: "save_try sq data name1 (Table rows') = (Inr (), Table rows')"
    if l: "dict_get data ''list'' (JList []) = Inr (JList [])"
      and c: "bind_err (dict_get data ''coord'' (JDict [])) read_coord = Inr (la, lo)"
  proof -
    have i: "bind_err (dict_get data ''list'' (JList [])) py_iter = Inr []" using l by simp
    have b: "batch_rows sq data la lo (effective_location_name data name1) [] = Inr []"
      by (simp add: batch_rows_def)
    show ?thesis using save_try_written [OF c i b, of rows'] by simp
  qed
  show ?thesis using a1 a2 b1 b2 c1 c2 by blast
qed

text \<open>
  The theorem on one observation stored under both coordinate forms, on an envelope that
  names Tokyo inserted with the parameter Paris, and on an empty envelope.
\<close>

theorem insert_coordinates_name_and_empty_list_witness:
  "valid_observation (sample_observation 100)
   \<and> save_to_database plain_sqlite
        (reading_envelope (coord_object 40.7128 (-74.0060)) [sample_observation 100] ''Synthetic Fallback'')
        (json_of_str (Some ''New York'')) (Table [])
       = Table [observation_row 40.7128 (-74.0060) (Some ''New York'') ''Synthetic Fallback'' (sample_observation 100)]
   \<and> save_to_database plain_sqlite
        (reading_envelope (coord_pair 40.7128 (-74.0060)) [sample_observation 100] ''Synthetic Fallback'')
        (json_of_str (Some ''New York'')) (Table [])
       = Table [observation_row 40.7128 (-74.0060) (Some ''New York'') ''Synthetic Fallback'' (sample_observation 100)]
   \<and> save_to_database plain_sqlite
        (JDict [(''coord'', coord_pair 35.6762 139.6503), (''list'', JList [sample_item 100]),
                (''location_name'', JStr ''Tokyo'')])
        (JStr ''Paris'') (Table [])
       = Table [observation_row 35.6762 139.6503 (Some ''Tokyo'') ''unknown'' (sample_observation 100)]
   \<and> column (observation_row 35.6762 139.6503 (Some ''Tokyo'') ''unknown'' (sample_observation 100))
         ''location_name'' = SText ''Tokyo''
   \<and> save_to_database plain_sqlite
        (JDict [(''coord'', coord_pair 35.6762 139.6503), (''list'', JList [sample_item 100]),
                (''location_name'', JStr ''Tokyo'')])
        (JStr ''Paris'') (Table [])
       = save_to_database plain_sqlite
        (JDict [(''coord'', coord_pair 35.6762 139.6503), (''list'', JList [sample_item 100]),
                (''location_name'', JStr ''Tokyo'')])
        JNull (Table [])
   \<and> save_try plain_sqlite (reading_envelope (coord_pair 35.6762 139.6503) [] ''Synthetic Fallback'') JNull
        (Table [observation_row 35.6762 139.6503 None ''unknown'' (sample_observation 100)])
       = (Inr (), Table [observation_row 35.6762 139.6503 None ''unknown'' (sample_observation 100)])"
proof -
  define kvs where "kvs = [(''coord'', coord_pair 35.6762 139.6503), (''list'', JList [sample_item 100]),
                (''location_name'', JStr ''Tokyo'')]"
  define r where "r = observation_row 35.6762 139.6503 (Some ''Tokyo'') ''unknown'' (sample_observation 100)"
  define r0 where "r0 = observation_row 35.6762 139.6503 None ''unknown'' (sample_observation 100)"
  define data where "data = reading_envelope (coord_pair 35.6762 139.6503) [] ''Synthetic Fallback''"
  have v: "\<forall>ob \<in> set [sample_observation 100]. valid_observation ob"
    by (simp add: valid_observation_def sample_observation_def)
  have m: "map_of kvs ''location_name'' = Some (JStr ''Tokyo'')" by (simp add: kvs_def)
  have s: "save_to_database plain_sqlite (JDict kvs) (JStr ''Paris'') (Table []) = Table ([] @ [r])"
    by (simp add: kvs_def r_def store_run_defs coord_pair_def observation_row_def pollutant_value_def)
  have l: "dict_get data ''list'' (JList []) = Inr (JList [])"
    by (simp add: data_def reading_envelope_def)
  have c: "bind_err (dict_get data ''coord'' (JDict [])) read_coord = Inr (JReal 35.6762, JReal 139.6503)"
    by (simp add: data_def reading_envelope_def read_coord_forms)
  note T = insert_coordinates_name_and_empty_list [OF v,
      where sq = plain_sqlite and lat = "40.7128" and lon = "-74.0060" and src = "''Synthetic Fallback''"
        and name = "Some ''New York''" and rows = "[]" and kvs = kvs and v = "JStr ''Tokyo''"
        and ?name1.0 = "JStr ''Paris''" and ?name2.0 = JNull and st = "Table []" and rows' = "[]"
        and new = "[r]"]
  note U = insert_coordinates_name_and_empty_list [OF v,
      where sq = plain_sqlite and data = data and ?name1.0 = JNull and rows' = "[r0]"
        and la = "JReal 35.6762" and lo = "JReal 139.6503"]
  have a1: "save_to_database plain_sqlite
        (reading_envelope (coord_object 40.7128 (-74.0060)) [sample_observation 100] ''Synthetic Fallback'')
        (json_of_str (Some ''New York'')) (Table [])
       = Table [observation_row 40.7128 (-74.0060) (Some ''New York'') ''Synthetic Fallback'' (sample_observation 100)]"
    using T by simp
  have a2: "save_to_database plain_sqlite
        (reading_envelope (coord_pair 40.7128 (-74.0060)) [sample_observation 100] ''Synthetic Fallback'')
        (json_of_str (Some ''New York'')) (Table [])
       = Table [observation_row 40.7128 (-74.0060) (Some ''New York'') ''Synthetic Fallback'' (sample_observation 100)]"
    using T by simp
  have b1: "save_to_database plain_sqlite (JDict kvs) (JStr ''Paris'') (Table [])
      = save_to_database plain_sqlite (JDict kvs) JNull (Table [])"
    using T m by blast
  have b2: "column r ''location_name'' = SText ''Tokyo''"
    using T m s by auto
  have c2: "save_try plain_sqlite data JNull (Table [r0]) = (Inr (), Table [r0])"
    using U l c by blast
  have v1: "valid_observation (sample_observation 100)" using v by simp
  show ?thesis
    using v1 a1 a2 s b1 b2 c2 unfolding kvs_def r_def r0_def data_def by simp
qed



section \<open>The endpoints and a coordinate of zero\<close>

lemma zero_coordinate_views:
  assumes "k = ''lat'' \<or> k = ''lon''" and "args_get_float e req k = Some 0"
  shows "current_view e req w = (Inr (400, error_body ''Location required (lat/lon)''), w)"
    and "forecast_view e req w = (Inr (400, error_body ''Coordinates required''), w)"
    and "historical_view e req w =
           (Inr (400, error_body ''lat, lon, start, and end parameters required''), w)"
  using assms
  by (auto simp: current_view_def forecast_view_def historical_view_def Let_def json_of_float_def)

lemma missing_coordinate_views:
  assumes "k = ''lat'' \<or> k = ''lon''" and "args_get_float e req k = None"
  shows "current_view e req w = (Inr (400, error_body ''Location required (lat/lon)''), w)"
    and "forecast_view e req w = (Inr (400, error_body ''Coordinates required''), w)"
    and "historical_view e req w =
           (Inr (400, error_body ''lat, lon, start, and end parameters required''), w)"
  using assms
  by (auto simp: current_view_def forecast_view_def historical_view_def Let_def json_of_float_def)

lemma args_get_float_deleted:
  "args_get_float e (req \<lparr> args := AList.delete k (args req) \<rparr>) k = None"
  by (simp add: args_get_float_def delete_conv')

text \<open>
  C9. When the \<open>lat\<close> or the \<open>lon\<close> parameter of a request parses to \<open>0.0\<close>, each of the
  three data endpoints answers as it does to the same request without that parameter;
  once the API key is accepted, that answer is the 400 of the missing parameter. The
  presence check tests the truth value of the parsed floats, and \<open>0.0\<close> is false.
\<close>

theorem zero_coordinate_is_missing_coordinate:
  assumes "k = ''lat'' \<or> k = ''lon''" and "args_get_float e req k = Some 0"
  shows "(api_key_ok e req \<longrightarrow>
            get_current_aqi e req w = (Inr (400, error_body ''Location required (lat/lon)''), w)
          \<and> get_forecast_aqi e req w = (Inr (400, error_body ''Coordinates required''), w)
          \<and> get_historical_aqi e req w =
              (Inr (400, error_body ''lat, lon, start, and end parameters required''), w))
     \<and> get_current_aqi e req w = get_current_aqi e (req \<lparr> args := AList.delete k (args req) \<rparr>) w
     \<and> get_forecast_aqi e req w = get_forecast_aqi e (req \<lparr> args := AList.delete k (args req) \<rparr>) w
     \<and> get_historical_aqi e req w = get_historical_aqi e (req \<lparr> args := AList.delete k (args req) \<rparr>) w"
proof -
  let ?req' = "req \<lparr> args := AList.delete k (args req) \<rparr>"
  have key: "api_key_ok e ?req' = api_key_ok e req" by (simp add: api_key_ok_def)
  note z = zero_coordinate_views [OF assms, of w]
  note m = missing_coordinate_views [OF assms(1) args_get_float_deleted, of e req w]
  show ?thesis
    by (simp add: get_current_aqi_def get_forecast_aqi_def get_historical_aqi_def
        require_api_key_def key z m)
qed

text \<open>
  The theorem on a request for latitude 0 with the right key.
\<close>

theorem zero_coordinate_is_missing_coordinate_witness:
  "args_get_float (offline_env 0 None)
       \<lparr> api_key_header = Some ''s3cret'', args = [(''lat'', ''0''), (''lon'', ''116.4'')] \<rparr> ''lat'' = Some 0
   \<and> api_key_ok (offline_env 0 None)
       \<lparr> api_key_header = Some ''s3cret'', args = [(''lat'', ''0''), (''lon'', ''116.4'')] \<rparr>
   \<and> get_current_aqi (offline_env 0 None)
       \<lparr> api_key_header = Some ''s3cret'', args = [(''lat'', ''0''), (''lon'', ''116.4'')] \<rparr>
       \<lparr> rng_state = constant_rng (1/2), sent = [], db = Table [] \<rparr>
     = (Inr (400, error_body ''Location required (lat/lon)''),
        \<lparr> rng_state = constant_rng (1/2), sent = [], db = Table [] \<rparr>)
   \<and> get_current_aqi (offline_env 0 None)
       \<lparr> api_key_header = Some ''s3cret'', args = [(''lat'', ''0''), (''lon'', ''116.4'')] \<rparr>
       \<lparr> rng_state = constant_rng (1/2), sent = [], db = Table [] \<rparr>
     = get_current_aqi (offline_env 0 None)
       \<lparr> api_key_header = Some ''s3cret'', args = [(''lon'', ''116.4'')] \<rparr>
       \<lparr> rng_state = constant_rng (1/2), sent = [], db = Table [] \<rparr>"
proof -
  define e where "e = offline_env 0 None"
  define req where "req = \<lparr> api_key_header = Some ''s3cret'', args = [(''lat'', ''0''), (''lon'', ''116.4'')] \<rparr>"
  define w where "w = \<lparr> rng_state = constant_rng (1/2), sent = [], db = Table [] \<rparr>"
  have k: "''lat'' = ''lat'' \<or> ''lat'' = ''lon''" by simp
  have a: "args_get_float e req ''lat'' = Some 0"
    by (simp add: e_def req_def args_get_float_def offline_env_def)
  have o: "api_key_ok e req" by (simp add: e_def req_def api_key_ok_def offline_env_def)
  have d: "req \<lparr> args := AList.delete ''lat'' (args req) \<rparr>
      = \<lparr> api_key_header = Some ''s3cret'', args = [(''lon'', ''116.4'')] \<rparr>"
    by (simp add: req_def)
  note T = zero_coordinate_is_missing_coordinate [OF k a, of w, unfolded d]
  have c1: "get_current_aqi e req w = (Inr (400, error_body ''Location required (lat/lon)''), w)"
    using T o by blast
  have c2: "get_current_aqi e req w =
      get_current_aqi e \<lparr> api_key_header = Some ''s3cret'', args = [(''lon'', ''116.4'')] \<rparr> w"
    using T by blast
  show ?thesis using a o c1 c2 unfolding e_def req_def w_def by blast
qed

section \<open>The backfill job's coverage check\<close>



lemma fetch_historical_aqi_sent:
  "sent (snd (fetch_historical_aqi e lat lon start end w)) = sent w @ [HistoryRequest lat lon start end]"
  by (simp add: fetch_historical_aqi_def Let_def split: sum.splits prod.splits)



section \<open>The current fetch and its fallback\<close>










lemma generate_fake_data_now:
  assumes "valid_timestamp c (time_now c)"
  shows "\<exists>ob g'. generate_fake_data c lat lon None g =
     (Inr (JDict [(''coord'', JList [JReal lat, JReal lon]), (''list'', JList [ob])]), g')"
proof -
  from assms obtain hour where h: "local_hour c (time_now c) = Inr hour"
    by (auto simp: valid_timestamp_def split: sum.splits)
  have "\<exists>ob. fst (generate_fake_data c lat lon None g) =
     Inr (JDict [(''coord'', JList [JReal lat, JReal lon]), (''list'', JList [ob])])"
    using generate_fake_data_Inr [of c None hour lat lon g] h by simp
  then show ?thesis by (cases "generate_fake_data c lat lon None g") auto
qed




lemma save_fake_loop_samples:
  assumes "\<forall>p \<in> set todo. valid_timestamp c (time_now c - int (snd p) * 3600)"
    and "\<forall>s \<in> set acc. pre_generated_sample s"
  shows "\<exists>samples g'. save_fake_loop c todo acc g = (Inr samples, g')
     \<and> length samples = length acc + length todo
     \<and> (\<forall>s \<in> set samples. pre_generated_sample s)"
  using assms
proof (induction todo arbitrary: acc g)
  case Nil
  then show ?case by simp
next
  case (Cons p todo)
  obtain lat lon city hours_ago where p: "p = ((lat, lon, city), hours_ago)"
    by (metis prod.collapse)
  have v: "valid_timestamp c (time_now c - int hours_ago * 3600)" using Cons.prems(1) p by simp
  from generate_fake_data_items [OF v, of lat lon g] obtain fake_data ob g1 where
    gen: "generate_fake_data c lat lon (Some (time_now c - int hours_ago * 3600)) g = (Inr fake_data, g1)"
    by blast
  from v obtain hour where h: "local_hour c (time_now c - int hours_ago * 3600) = Inr hour"
    by (auto simp: valid_timestamp_def split: sum.splits)
  have "\<exists>ob. fst (generate_fake_data c lat lon (Some (time_now c - int hours_ago * 3600)) g) =
     Inr (JDict [(''coord'', JList [JReal lat, JReal lon]), (''list'', JList [ob])])"
    using generate_fake_data_Inr [of c "Some (time_now c - int hours_ago * 3600)" hour lat lon g] h
    by simp
  then obtain ob' where fd: "fake_data = JDict [(''coord'', JList [JReal lat, JReal lon]), (''list'', JList [ob'])]"
    using gen by auto
  define named where "named = JDict [(''coord'', JList [JReal lat, JReal lon]), (''list'', JList [ob']),
      (''location_name'', JStr city)]"
  have si: "setitem fake_data ''location_name'' (JStr city) = Inr named"
    by (simp add: fd named_def)
  have pn: "pre_generated_sample named" by (simp add: named_def pre_generated_sample_def)
  have acc': "\<forall>s \<in> set (acc @ [named]). pre_generated_sample s" using Cons.prems(2) pn by simp
  have todo': "\<forall>p \<in> set todo. valid_timestamp c (time_now c - int (snd p) * 3600)"
    using Cons.prems(1) by simp
  from Cons.IH [OF todo' acc', of g1] obtain samples g' where
    "save_fake_loop c todo (acc @ [named]) g1 = (Inr samples, g')"
    "length samples = length (acc @ [named]) + length todo"
    "\<forall>s \<in> set samples. pre_generated_sample s"
    by blast
  then show ?case using gen si p by simp
qed

text \<open>
  The samples \<open>save_fake_data_to_file\<close> writes are of that shape, eighty of them.
\<close>

lemma written_samples_are_pre_generated:
  assumes "\<forall>k < 16. valid_timestamp c (time_now c - int (3 * k) * 3600)"
  shows "\<exists>samples g'. save_fake_data_to_file c g = (Inr samples, g')
     \<and> length samples = 80
     \<and> (\<forall>s \<in> set samples. pre_generated_sample s)"
proof -
  have v: "\<forall>p \<in> set (List.product locations (map (\<lambda>k. 3 * k) [0..<16])).
      valid_timestamp c (time_now c - int (snd p) * 3600)"
    using assms by auto
  from save_fake_loop_samples [OF v, of "[]" g] obtain samples g' where
    r: "save_fake_loop c (List.product locations (map (\<lambda>k. 3 * k) [0..<16])) [] g = (Inr samples, g')"
    "length samples = length (List.product locations (map (\<lambda>k. 3 * k) [0..<16]))"
    "\<forall>s \<in> set samples. pre_generated_sample s"
    by auto
  have "length (List.product locations (map (\<lambda>k. 3 * k) [0..<16])) = 80"
    by (simp add: locations_def)
  then show ?thesis using r by (simp add: save_fake_data_to_file_def)
qed


text \<open>
  When the file exists and cannot be read or parsed, the \<^verbatim>\<open>except\<close> branch answers with a
  fresh point, tagged, without a location name.
\<close>

lemma fallback_on_unreadable_file:
  assumes "valid_timestamp c (time_now c)"
  shows "\<exists>ob g'. get_fallback_data c (Some (Inl err)) lat lon g =
     (Inr (JDict [(''coord'', JList [JReal lat, JReal lon]), (''list'', JList [ob]),
                  (''source'', JStr ''Synthetic Fallback'')]), g')"
proof -
  from generate_fake_data_now [OF assms, of lat lon g] obtain ob g' where
    "generate_fake_data c lat lon None g =
        (Inr (JDict [(''coord'', JList [JReal lat, JReal lon]), (''list'', JList [ob])]), g')"
    by blast
  then show ?thesis
    by (simp add: get_fallback_data_def fallback_try_def Let_def)
qed

end
